theory Spec2Isabelle
  imports Complex_Main
begin

section \<open>Shared data: numbers and three-component vectors\<close>

text \<open>
  The three scripts compute with JavaScript numbers. They are modelled as exact
  real numbers: every statement below is about the geometry the arithmetic
  describes, not about the rounding of IEEE doubles. Loop counters and grid
  dimensions are integers.

  \<open>Vector3\<close> is the vector class of the rendering library the scripts call.
  Only the operations the scripts use are modelled, each as the pure function
  of its result: \<open>add\<close>, \<open>subVectors\<close>, \<open>addVectors\<close>, \<open>multiplyScalar\<close>,
  \<open>divideScalar\<close>, \<open>lengthSq\<close>, \<open>length\<close> (here \<open>length_v\<close>), \<open>normalize\<close> (here
  \<open>normalize_v\<close>; it divides by \<open>length() || 1\<close>, so the zero vector stays the
  zero vector), \<open>distanceToSquared\<close> and \<open>distanceTo\<close>. \<open>divideScalar(s)\<close> is
  \<open>multiplyScalar(1 / s)\<close>.
\<close>

datatype Vector3 = Vector3 (vx: real) (vy: real) (vz: real)

definition add :: "Vector3 \<Rightarrow> Vector3 \<Rightarrow> Vector3" where
  "add a b = Vector3 (vx a + vx b) (vy a + vy b) (vz a + vz b)"

definition addVectors :: "Vector3 \<Rightarrow> Vector3 \<Rightarrow> Vector3" where
  "addVectors a b = Vector3 (vx a + vx b) (vy a + vy b) (vz a + vz b)"

definition subVectors :: "Vector3 \<Rightarrow> Vector3 \<Rightarrow> Vector3" where
  "subVectors a b = Vector3 (vx a - vx b) (vy a - vy b) (vz a - vz b)"

definition multiplyScalar :: "Vector3 \<Rightarrow> real \<Rightarrow> Vector3" where
  "multiplyScalar a s = Vector3 (vx a * s) (vy a * s) (vz a * s)"

definition divideScalar :: "Vector3 \<Rightarrow> real \<Rightarrow> Vector3" where
  "divideScalar a s = multiplyScalar a (1 / s)"

definition lengthSq :: "Vector3 \<Rightarrow> real" where
  "lengthSq a = vx a * vx a + vy a * vy a + vz a * vz a"

definition length_v :: "Vector3 \<Rightarrow> real" where
  "length_v a = sqrt (lengthSq a)"

definition normalize_v :: "Vector3 \<Rightarrow> Vector3" where
  "normalize_v a = divideScalar a (if length_v a = 0 then 1 else length_v a)"

definition distanceToSquared :: "Vector3 \<Rightarrow> Vector3 \<Rightarrow> real" where
  "distanceToSquared a b =
     (vx a - vx b) * (vx a - vx b) + (vy a - vy b) * (vy a - vy b)
       + (vz a - vz b) * (vz a - vz b)"

definition distanceTo :: "Vector3 \<Rightarrow> Vector3 \<Rightarrow> real" where
  "distanceTo a b = sqrt (distanceToSquared a b)"

section \<open>The rectangular prism cut into cubes\<close>

text \<open>
  \<open>createRectangularPrismWithCubes\<close> of
  \<^verbatim>\<open>mathematics/visualizations/rectangular_prism_visualization.js\<close>. The script
  fixes \<open>width = 2\<close>, \<open>height = 5\<close>, \<open>depth = 11\<close>, \<open>spacing = 0.2\<close> and
  \<open>cubeSize = 1\<close>; here they are parameters. A cube of the model keeps, besides
  the material and the position the script gives the mesh, the loop variables
  \<open>x\<close>, \<open>y\<close>, \<open>z\<close> and the local \<open>exposedFaces\<close> it was made from.
\<close>

datatype material =
    threeFacesExposedMaterial
  | twoFacesExposedMaterial
  | oneFaceExposedMaterial
  | interiorCubeMaterial

record cube =
  gridX :: int
  gridY :: int
  gridZ :: int
  exposedFaceCount :: nat
  cubeMaterial :: material
  position :: Vector3

definition countExposed :: "int \<Rightarrow> int \<Rightarrow> int \<Rightarrow> int \<Rightarrow> int \<Rightarrow> int \<Rightarrow> nat" where
  "countExposed width height depth x y z =
     (let exposedFaces = 0;
          exposedFaces = (if x = 0 \<or> x = width - 1 then exposedFaces + 1 else exposedFaces);
          exposedFaces = (if y = 0 \<or> y = height - 1 then exposedFaces + 1 else exposedFaces);
          exposedFaces = (if z = 0 \<or> z = depth - 1 then exposedFaces + 1 else exposedFaces)
      in exposedFaces)"

definition selectMaterial :: "nat \<Rightarrow> material" where
  "selectMaterial exposedFaces =
     (if exposedFaces = 3 then threeFacesExposedMaterial
      else if exposedFaces = 2 then twoFacesExposedMaterial
      else if exposedFaces = 1 then oneFaceExposedMaterial
      else interiorCubeMaterial)"

definition cubePosition :: "real \<Rightarrow> real \<Rightarrow> int \<Rightarrow> int \<Rightarrow> real" where
  "cubePosition cubeSize spacing dimension coord =
     of_int coord * (cubeSize + spacing) - (of_int dimension * (cubeSize + spacing) / 2)
       + (cubeSize + spacing) / 2"

definition makeCube :: "int \<Rightarrow> int \<Rightarrow> int \<Rightarrow> real \<Rightarrow> real \<Rightarrow> int \<Rightarrow> int \<Rightarrow> int \<Rightarrow> cube" where
  "makeCube width height depth cubeSize spacing x y z =
     (let exposedFaces = countExposed width height depth x y z in
      \<lparr> gridX = x, gridY = y, gridZ = z,
        exposedFaceCount = exposedFaces,
        cubeMaterial = selectMaterial exposedFaces,
        position = Vector3 (cubePosition cubeSize spacing width x)
                           (cubePosition cubeSize spacing height y)
                           (cubePosition cubeSize spacing depth z) \<rparr>)"

text \<open>
  The three nested \<open>for\<close> loops, each running its counter from \<open>0\<close> while it is
  below the bound; \<open>prismGroup.add\<close> appends the cube to the group's children.
\<close>

definition createRectangularPrismWithCubes ::
    "int \<Rightarrow> int \<Rightarrow> int \<Rightarrow> real \<Rightarrow> real \<Rightarrow> cube list" where
  "createRectangularPrismWithCubes width height depth cubeSize spacing =
     fold (\<lambda>x prismGroup.
       fold (\<lambda>y prismGroup.
         fold (\<lambda>z prismGroup.
           prismGroup @ [makeCube width height depth cubeSize spacing x y z])
           [0..depth - 1] prismGroup)
         [0..height - 1] prismGroup)
       [0..width - 1] []"

subsection \<open>What the specification says about a cell\<close>

text \<open>
  The specification's words, written down independently of the loop body: the
  exposed-face count is the number of axes on which the coordinate is \<open>0\<close> or
  \<open>max - 1\<close>, and the category is a function of the count alone, defined on
  \<open>{0,1,2,3}\<close> only: \<open>3\<close> is a corner (the script's \<open>threeFacesExposedMaterial\<close>),
  \<open>2\<close> an edge (\<open>twoFacesExposedMaterial\<close>), \<open>1\<close> a face
  (\<open>oneFaceExposedMaterial\<close>), \<open>0\<close> interior (\<open>interiorCubeMaterial\<close>).
\<close>

definition gridCoord :: "cube \<Rightarrow> int \<times> int \<times> int" where
  "gridCoord c = (gridX c, gridY c, gridZ c)"

definition boundaryAxes :: "int \<times> int \<times> int \<Rightarrow> int \<times> int \<times> int \<Rightarrow> nat" where
  "boundaryAxes dims coord =
     (case dims of (width, height, depth) \<Rightarrow> case coord of (x, y, z) \<Rightarrow>
        length (filter (\<lambda>(coord, dimension). coord = 0 \<or> coord = dimension - 1)
          [(x, width), (y, height), (z, depth)]))"

definition categoryOfCount :: "nat \<Rightarrow> material option" where
  "categoryOfCount n =
     (if n = 3 then Some threeFacesExposedMaterial
      else if n = 2 then Some twoFacesExposedMaterial
      else if n = 1 then Some oneFaceExposedMaterial
      else if n = 0 then Some interiorCubeMaterial
      else None)"

text \<open>The arithmetic mean of a list of points.\<close>

definition sumVectors :: "Vector3 list \<Rightarrow> Vector3" where
  "sumVectors ps = fold (\<lambda>p acc. add acc p) ps (Vector3 0 0 0)"

definition meanVector :: "Vector3 list \<Rightarrow> Vector3" where
  "meanVector ps = divideScalar (sumVectors ps) (real (length ps))"

section \<open>The cluster of five tetrahedra\<close>

text \<open>
  \<open>createRegularTetrahedron\<close> and \<open>createMultipleTetrahedrons\<close> of
  \<^verbatim>\<open>shared/visualizations/tetrahedron_visualization.js\<close>. The script fixes
  \<open>scale = 1.0\<close>; here it is the parameter. Of a tetrahedron the model keeps the
  vertices, the centre and the colour; the buffer geometry and the wireframe
  are made from the vertices and belong to the renderer.
\<close>

record regularTetrahedron =
  vertices_of :: "Vector3 list"
  center_of :: Vector3

record tetrahedron = regularTetrahedron +
  color_of :: nat

definition colors :: "nat list" where
  "colors = [0x00FFFF, 0x90EE90, 0xADD8E6, 0xFFFFE0, 0xFFB6C1]"

definition createRegularTetrahedron :: "Vector3 \<Rightarrow> real \<Rightarrow> regularTetrahedron" where
  "createRegularTetrahedron center scale =
     \<lparr> vertices_of =
         map (\<lambda>vertex. add (multiplyScalar vertex scale) center)
           [Vector3 1 1 1, Vector3 1 (- 1) (- 1), Vector3 (- 1) 1 (- 1), Vector3 (- 1) (- 1) 1],
       center_of = center \<rparr>"

text \<open>The body of the first loop: the new vertex for index \<open>i\<close>.\<close>

definition newVertexAt :: "Vector3 list \<Rightarrow> real \<Rightarrow> nat \<Rightarrow> Vector3" where
  "newVertexAt centralVertices scale i =
     (let v1 = centralVertices ! i;
          v2 = centralVertices ! ((i + 1) mod 4);
          v3 = centralVertices ! ((i + 2) mod 4);
          center = divideScalar (add (add (add (Vector3 0 0 0) v1) v2) v3) 3;
          oppositeVertex = centralVertices ! ((i + 3) mod 4);
          directionToOpposite = normalize_v (subVectors oppositeVertex center)
      in subVectors center (multiplyScalar directionToOpposite (scale * 1.63)))"

definition newVerticesLoop :: "Vector3 list \<Rightarrow> real \<Rightarrow> Vector3 list" where
  "newVerticesLoop centralVertices scale =
     fold (\<lambda>i newVertices. newVertices @ [newVertexAt centralVertices scale i]) [0..<4] []"

text \<open>The body of the second loop: the additional tetrahedron for index \<open>i\<close>.\<close>

definition additionalTetrahedron :: "Vector3 list \<Rightarrow> Vector3 list \<Rightarrow> nat \<Rightarrow> tetrahedron" where
  "additionalTetrahedron centralVertices newVertices i =
     (let tetraVertices =
            [centralVertices ! i,
             centralVertices ! ((i + 1) mod 4),
             centralVertices ! ((i + 2) mod 4),
             newVertices ! i];
          center = divideScalar (fold (\<lambda>v center. add center v) tetraVertices (Vector3 0 0 0)) 4
      in \<lparr> vertices_of = tetraVertices, center_of = center, color_of = colors ! (i + 1) \<rparr>)"

text \<open>
  The key of a vertex is the string
  \<^verbatim>\<open>`${vertex.x.toFixed(6)},${vertex.y.toFixed(6)},${vertex.z.toFixed(6)}`\<close>.
  \<open>toFixed(6)\<close> is the language's own: it writes \<open>-\<close> when the number is
  below zero, then, for a magnitude below \<open>10^21\<close>, the digits of the integer
  \<open>n\<close> for which \<open>n / 10^6\<close> is nearest the magnitude (the larger of two nearest),
  and for a larger magnitude the ordinary conversion of the number to a string.
  The model keeps the parts the string is written from instead of the
  characters: the sign, and either \<open>n\<close> or the magnitude itself. Two such
  strings are equal exactly when these parts are, and so are two keys, since
  the strings hold no comma.
\<close>

datatype magnitude = FixedDigits nat | NumberToString real

definition toFixed6 :: "real \<Rightarrow> bool \<times> magnitude" where
  "toFixed6 x =
     (let s = (x < 0);
          x = (if x < 0 then - x else x)
      in if 10 ^ 21 \<le> x then (s, NumberToString x)
         else (s, FixedDigits (nat \<lfloor>x * 10 ^ 6 + 1 / 2\<rfloor>)))"

type_synonym vertexKey = "(bool \<times> magnitude) \<times> (bool \<times> magnitude) \<times> (bool \<times> magnitude)"

definition keyOf :: "Vector3 \<Rightarrow> vertexKey" where
  "keyOf vertex = (toFixed6 (vx vertex), toFixed6 (vy vertex), toFixed6 (vz vertex))"

text \<open>
  The last loop: a sphere is added at a vertex when its key is not yet in the
  set \<open>addedVertices\<close>. The state is the set and the sphere positions so far.
\<close>

definition addVertexSphere ::
    "Vector3 \<Rightarrow> vertexKey set \<times> Vector3 list \<Rightarrow> vertexKey set \<times> Vector3 list" where
  "addVertexSphere vertex st =
     (case st of (addedVertices, spheres) \<Rightarrow>
        let key = keyOf vertex in
        if key \<notin> addedVertices then (insert key addedVertices, spheres @ [vertex])
        else (addedVertices, spheres))"

definition vertexSpheresOf :: "tetrahedron list \<Rightarrow> Vector3 list" where
  "vertexSpheresOf tetrahedrons =
     snd (fold (\<lambda>tetra st. fold addVertexSphere (vertices_of tetra) st) tetrahedrons ({}, []))"

record tetraScene =
  sceneTetrahedrons :: "tetrahedron list"
  sceneCenterSpheres :: "Vector3 list"
  sceneVertexSpheres :: "Vector3 list"

definition createMultipleTetrahedrons :: "real \<Rightarrow> tetraScene" where
  "createMultipleTetrahedrons scale =
     (let centralTetra = createRegularTetrahedron (Vector3 0 0 0) scale;
          tetrahedrons =
            [\<lparr> vertices_of = vertices_of centralTetra, center_of = center_of centralTetra,
               color_of = colors ! 0 \<rparr>];
          newVertices = newVerticesLoop (vertices_of centralTetra) scale;
          tetrahedrons =
            fold (\<lambda>i tetrahedrons.
                    tetrahedrons @ [additionalTetrahedron (vertices_of centralTetra) newVertices i])
              [0..<4] tetrahedrons
      in \<lparr> sceneTetrahedrons = tetrahedrons,
           sceneCenterSpheres = map center_of tetrahedrons,
           sceneVertexSpheres = vertexSpheresOf tetrahedrons \<rparr>)"

section \<open>The diamond lattice\<close>

text \<open>
  \<open>createDiamondStructure\<close>, \<open>createAtom\<close>, \<open>createBonds\<close> and \<open>createBond\<close> of
  \<^verbatim>\<open>diamond_visualization.js\<close>. The script fixes \<open>unitCellSize = 3.57\<close> and
  \<open>cellsX = cellsY = cellsZ = 2\<close>; here they are parameters. The bond threshold
  is not among them: \<open>createBonds\<close> fixes it, as \<open>maxBondDistance\<close>. The state the
  functions share is the global \<open>diamondGroup\<close> (the meshes added so far,
  \<open>groupMeshes\<close>) and the array \<open>atomPositions\<close> (\<open>storedPositions\<close>). Of a bond's
  mesh the model keeps the position (the midpoint), the cylinder's height and
  radius and the unit direction its rotation is computed from.
\<close>

record bond =
  bondPosition :: Vector3
  bondLength :: real
  bondDirection :: Vector3
  bondCylinderRadius :: real

datatype diamondMesh = AtomMesh Vector3 | BondMesh bond

record diamondState =
  groupMeshes :: "diamondMesh list"
  storedPositions :: "Vector3 list"

definition createAtom :: "real \<Rightarrow> real \<Rightarrow> real \<Rightarrow> diamondMesh list \<Rightarrow> diamondMesh list" where
  "createAtom x y z diamondGroup = diamondGroup @ [AtomMesh (Vector3 x y z)]"

definition fccPositions :: "(real \<times> real \<times> real) list" where
  "fccPositions = [(0, 0, 0), (0, 0.5, 0.5), (0.5, 0, 0.5), (0.5, 0.5, 0)]"

text \<open>The body of \<open>fccPositions.forEach\<close>: two atoms, two positions stored.\<close>

definition placeAtomPair ::
    "real \<Rightarrow> real \<Rightarrow> real \<Rightarrow> real \<Rightarrow> real \<times> real \<times> real \<Rightarrow> diamondState \<Rightarrow> diamondState" where
  "placeAtomPair unitCellSize baseX baseY baseZ pos st =
     (case pos of (pos0, pos1, pos2) \<Rightarrow>
      let atomX = baseX + pos0 * unitCellSize;
          atomY = baseY + pos1 * unitCellSize;
          atomZ = baseZ + pos2 * unitCellSize;
          st = st\<lparr>groupMeshes := createAtom atomX atomY atomZ (groupMeshes st)\<rparr>;
          st = st\<lparr>storedPositions := storedPositions st @ [Vector3 atomX atomY atomZ]\<rparr>;
          offsetX = atomX + 0.25 * unitCellSize;
          offsetY = atomY + 0.25 * unitCellSize;
          offsetZ = atomZ + 0.25 * unitCellSize;
          st = st\<lparr>groupMeshes := createAtom offsetX offsetY offsetZ (groupMeshes st)\<rparr>;
          st = st\<lparr>storedPositions := storedPositions st @ [Vector3 offsetX offsetY offsetZ]\<rparr>
      in st)"

text \<open>The body of the innermost \<open>for\<close> loop: one unit cell.\<close>

definition placeUnitCell ::
    "int \<Rightarrow> int \<Rightarrow> int \<Rightarrow> real \<Rightarrow> int \<Rightarrow> int \<Rightarrow> int \<Rightarrow> diamondState \<Rightarrow> diamondState" where
  "placeUnitCell cellsX cellsY cellsZ unitCellSize x y z st =
     (let baseX = (of_int x - of_int cellsX / 2) * unitCellSize;
          baseY = (of_int y - of_int cellsY / 2) * unitCellSize;
          baseZ = (of_int z - of_int cellsZ / 2) * unitCellSize
      in fold (placeAtomPair unitCellSize baseX baseY baseZ) fccPositions st)"

definition placeAtoms :: "int \<Rightarrow> int \<Rightarrow> int \<Rightarrow> real \<Rightarrow> diamondState \<Rightarrow> diamondState" where
  "placeAtoms cellsX cellsY cellsZ unitCellSize st =
     fold (\<lambda>x st.
       fold (\<lambda>y st.
         fold (\<lambda>z st. placeUnitCell cellsX cellsY cellsZ unitCellSize x y z st)
           [0..cellsZ - 1] st)
         [0..cellsY - 1] st)
       [0..cellsX - 1] st"

definition createBond :: "Vector3 \<Rightarrow> Vector3 \<Rightarrow> real \<Rightarrow> diamondMesh list \<Rightarrow> diamondMesh list" where
  "createBond atom1 atom2 bondRadius diamondGroup =
     (let midpoint = multiplyScalar (addVectors atom1 atom2) 0.5;
          direction = subVectors atom2 atom1;
          bondLength = length_v direction;
          direction = normalize_v direction
      in diamondGroup @
           [BondMesh \<lparr> bondPosition = midpoint, bondLength = bondLength,
                       bondDirection = direction, bondCylinderRadius = bondRadius \<rparr>])"

definition maxBondDistance :: real where
  "maxBondDistance = 1.8"

definition createBonds :: "Vector3 list \<Rightarrow> real \<Rightarrow> real \<Rightarrow> diamondMesh list \<Rightarrow> diamondMesh list" where
  "createBonds atomPositions bondRadius unitCellSize diamondGroup =
     fold (\<lambda>i diamondGroup.
       fold (\<lambda>j diamondGroup.
         let atom1 = atomPositions ! i;
             atom2 = atomPositions ! j;
             distance = distanceTo atom1 atom2
         in if distance < maxBondDistance
            then createBond atom1 atom2 bondRadius diamondGroup
            else diamondGroup)
         [i + 1..<length atomPositions] diamondGroup)
       [0..<length atomPositions] diamondGroup"

definition createDiamondStructure :: "int \<Rightarrow> int \<Rightarrow> int \<Rightarrow> real \<Rightarrow> diamondState" where
  "createDiamondStructure cellsX cellsY cellsZ unitCellSize =
     (let bondRadius = 0.15;
          st = \<lparr> groupMeshes = [], storedPositions = [] \<rparr>;
          st = placeAtoms cellsX cellsY cellsZ unitCellSize st
      in st\<lparr>groupMeshes :=
              createBonds (storedPositions st) bondRadius unitCellSize (groupMeshes st)\<rparr>)"

subsection \<open>What the specification says about the lattice\<close>

text \<open>
  The specification's words, written down independently of the loops: the grid
  cells in scan order; the base of a cell, \<open>(coord - cellsDim / 2) * latticeConstant\<close>
  on each axis; the four fractional offsets of the face-centred cubic lattice;
  the primary atom \<open>base + offset * latticeConstant\<close>; the second atom
  \<open>primary + (0.25, 0.25, 0.25) * latticeConstant\<close>; the eight atoms of a cell and
  the atoms of the whole lattice. The first sublattice is the list of primary
  atoms. \<open>scanPairs n\<close> lists the index pairs \<open>(i, j)\<close> with \<open>i < j < n\<close> in the
  order the two loops of \<open>createBonds\<close> visit them.
\<close>

definition gridCells :: "int \<Rightarrow> int \<Rightarrow> int \<Rightarrow> (int \<times> int \<times> int) list" where
  "gridCells cellsX cellsY cellsZ =
     List.product [0..cellsX - 1] (List.product [0..cellsY - 1] [0..cellsZ - 1])"

definition cellBase :: "int \<Rightarrow> int \<Rightarrow> int \<Rightarrow> real \<Rightarrow> int \<times> int \<times> int \<Rightarrow> Vector3" where
  "cellBase cellsX cellsY cellsZ latticeConstant cell =
     (case cell of (x, y, z) \<Rightarrow>
        Vector3 ((of_int x - of_int cellsX / 2) * latticeConstant)
                ((of_int y - of_int cellsY / 2) * latticeConstant)
                ((of_int z - of_int cellsZ / 2) * latticeConstant))"

definition fccOffsets :: "Vector3 list" where
  "fccOffsets = [Vector3 0 0 0, Vector3 0 0.5 0.5, Vector3 0.5 0 0.5, Vector3 0.5 0.5 0]"

definition primaryAtom :: "Vector3 \<Rightarrow> real \<Rightarrow> Vector3 \<Rightarrow> Vector3" where
  "primaryAtom base latticeConstant offset = add base (multiplyScalar offset latticeConstant)"

definition secondAtom :: "Vector3 \<Rightarrow> real \<Rightarrow> Vector3" where
  "secondAtom primary latticeConstant =
     add primary (multiplyScalar (Vector3 0.25 0.25 0.25) latticeConstant)"

definition cellAtoms :: "int \<Rightarrow> int \<Rightarrow> int \<Rightarrow> real \<Rightarrow> int \<times> int \<times> int \<Rightarrow> Vector3 list" where
  "cellAtoms cellsX cellsY cellsZ latticeConstant cell =
     concat (map (\<lambda>offset.
         [primaryAtom (cellBase cellsX cellsY cellsZ latticeConstant cell) latticeConstant offset,
          secondAtom (primaryAtom (cellBase cellsX cellsY cellsZ latticeConstant cell)
            latticeConstant offset) latticeConstant])
       fccOffsets)"

definition latticeAtoms :: "int \<Rightarrow> int \<Rightarrow> int \<Rightarrow> real \<Rightarrow> Vector3 list" where
  "latticeAtoms cellsX cellsY cellsZ latticeConstant =
     concat (map (cellAtoms cellsX cellsY cellsZ latticeConstant) (gridCells cellsX cellsY cellsZ))"

definition firstSublattice :: "int \<Rightarrow> int \<Rightarrow> int \<Rightarrow> real \<Rightarrow> Vector3 list" where
  "firstSublattice cellsX cellsY cellsZ latticeConstant =
     concat (map (\<lambda>cell.
         map (primaryAtom (cellBase cellsX cellsY cellsZ latticeConstant cell) latticeConstant)
           fccOffsets)
       (gridCells cellsX cellsY cellsZ))"

definition scanPairs :: "nat \<Rightarrow> (nat \<times> nat) list" where
  "scanPairs n = concat (map (\<lambda>i. map (Pair i) [i + 1..<n]) [0..<n])"

section \<open>The outcome of a builder\<close>

text \<open>
  The specification names the three entry points \<open>TetrahedronClusterBuilder.build\<close>,
  \<open>PrismCellClassifier.build\<close> and \<open>DiamondLatticeBuilder.build\<close> and one error,
  the invalid argument. The scripts hold no \<open>throw\<close>, no check of an argument
  and no early return, and the arithmetic and vector operations they call do
  not raise on numbers. A call therefore always returns the model, on the
  right of the sum; no branch of the source gives \<open>Inl InvalidArgument\<close>.
\<close>

datatype builderError = InvalidArgument

definition TetrahedronClusterBuilder_build :: "real \<Rightarrow> builderError + tetraScene" where
  "TetrahedronClusterBuilder_build scale = Inr (createMultipleTetrahedrons scale)"

definition PrismCellClassifier_build ::
    "int \<Rightarrow> int \<Rightarrow> int \<Rightarrow> real \<Rightarrow> real \<Rightarrow> builderError + cube list" where
  "PrismCellClassifier_build width height depth cubeSize spacing =
     Inr (createRectangularPrismWithCubes width height depth cubeSize spacing)"

definition DiamondLatticeBuilder_build ::
    "int \<Rightarrow> int \<Rightarrow> int \<Rightarrow> real \<Rightarrow> builderError + diamondState" where
  "DiamondLatticeBuilder_build cellsX cellsY cellsZ latticeConstant =
     Inr (createDiamondStructure cellsX cellsY cellsZ latticeConstant)"

section \<open>Auxiliary notions of the statements and proofs\<close>

text \<open>The vertices of the central tetrahedron, centred at the origin.\<close>

definition centralVertices :: "real \<Rightarrow> Vector3 list" where
  "centralVertices scale = vertices_of (createRegularTetrahedron (Vector3 0 0 0) scale)"

text \<open>The local \<open>center\<close> of the first loop: the mean of three consecutive vertices.\<close>

definition centerOfThree :: "Vector3 list \<Rightarrow> nat \<Rightarrow> Vector3" where
  "centerOfThree v i =
     divideScalar (add (add (add (Vector3 0 0 0) (v ! i)) (v ! ((i + 1) mod 4)))
       (v ! ((i + 2) mod 4))) 3"

text \<open>
  For a positive scale the new vertex is the opposite vertex multiplied by
  \<open>- offsetFactor\<close>.
\<close>

definition offsetFactor :: real where
  "offsetFactor = 1 / 3 + 1.63 / sqrt 3"

text \<open>The signs of the three coordinates, which the key of a vertex shows.\<close>

definition signs :: "Vector3 \<Rightarrow> bool \<times> bool \<times> bool" where
  "signs v = (vx v < 0, vy v < 0, vz v < 0)"

text \<open>
  Placing atoms: every position is added to the group as a mesh and stored in
  the array.
\<close>

definition emitAtoms :: "Vector3 list \<Rightarrow> diamondState \<Rightarrow> diamondState" where
  "emitAtoms ps st =
     \<lparr> groupMeshes = groupMeshes st @ map AtomMesh ps,
       storedPositions = storedPositions st @ ps \<rparr>"

text \<open>
  The mesh \<open>createBond\<close> adds for two atoms.
\<close>

definition bondMeshOf :: "Vector3 \<Rightarrow> Vector3 \<Rightarrow> real \<Rightarrow> diamondMesh" where
  "bondMeshOf atom1 atom2 bondRadius =
     BondMesh \<lparr> bondPosition = multiplyScalar (addVectors atom1 atom2) 0.5,
                 bondLength = length_v (subVectors atom2 atom1),
                 bondDirection = normalize_v (subVectors atom2 atom1),
                 bondCylinderRadius = bondRadius \<rparr>"

text \<open>
  The atoms and the bonds among the meshes of the group.
\<close>

definition atomMeshPositions :: "diamondMesh list \<Rightarrow> Vector3 list" where
  "atomMeshPositions meshes =
     concat (map (\<lambda>mesh. case mesh of AtomMesh p \<Rightarrow> [p] | BondMesh b \<Rightarrow> []) meshes)"

definition bondMeshes :: "diamondMesh list \<Rightarrow> diamondMesh list" where
  "bondMeshes meshes =
     filter (\<lambda>mesh. case mesh of AtomMesh p \<Rightarrow> False | BondMesh b \<Rightarrow> True) meshes"

text \<open>
  The lattice in units of a quarter of the lattice constant: every coordinate is
  an integer, even for a primary atom and odd for a second atom.
\<close>

definition unitOffsets :: "(int \<times> int \<times> int) list" where
  "unitOffsets = [(0, 0, 0), (0, 2, 2), (2, 0, 2), (2, 2, 0)]"

definition cellUnits :: "int \<Rightarrow> int \<Rightarrow> int \<Rightarrow> int \<times> int \<times> int \<Rightarrow> (int \<times> int \<times> int) list" where
  "cellUnits cellsX cellsY cellsZ cell =
     (case cell of (x, y, z) \<Rightarrow>
        concat (map (\<lambda>(o1, o2, o3).
            [(4 * x - 2 * cellsX + o1, 4 * y - 2 * cellsY + o2, 4 * z - 2 * cellsZ + o3),
             (4 * x - 2 * cellsX + o1 + 1, 4 * y - 2 * cellsY + o2 + 1, 4 * z - 2 * cellsZ + o3 + 1)])
          unitOffsets))"

definition latticeUnits :: "int \<Rightarrow> int \<Rightarrow> int \<Rightarrow> (int \<times> int \<times> int) list" where
  "latticeUnits cellsX cellsY cellsZ =
     concat (map (cellUnits cellsX cellsY cellsZ) (gridCells cellsX cellsY cellsZ))"

definition fromUnits :: "real \<Rightarrow> int \<times> int \<times> int \<Rightarrow> Vector3" where
  "fromUnits a k =
     (case k of (k1, k2, k3) \<Rightarrow>
        Vector3 (of_int k1 * (a / 4)) (of_int k2 * (a / 4)) (of_int k3 * (a / 4)))"

definition unitDistanceSquared :: "int \<times> int \<times> int \<Rightarrow> int \<times> int \<times> int \<Rightarrow> int" where
  "unitDistanceSquared k l =
     (case k of (k1, k2, k3) \<Rightarrow> case l of (l1, l2, l3) \<Rightarrow>
        (k1 - l1) * (k1 - l1) + (k2 - l2) * (k2 - l2) + (k3 - l3) * (k3 - l3))"

text \<open>
  The lattice of \<open>2 \<times> 2 \<times> 2\<close> cells in those units, in the order the atoms are
  stored.
\<close>

definition K222 :: "(int \<times> int \<times> int) list" where
  "K222 =
   [(-4,-4,-4),(-3,-3,-3),(-4,-2,-2),(-3,-1,-1),(-2,-4,-2),(-1,-3,-1),(-2,-2,-4),(-1,-1,-3),
    (-4,-4,0),(-3,-3,1),(-4,-2,2),(-3,-1,3),(-2,-4,2),(-1,-3,3),(-2,-2,0),(-1,-1,1),
    (-4,0,-4),(-3,1,-3),(-4,2,-2),(-3,3,-1),(-2,0,-2),(-1,1,-1),(-2,2,-4),(-1,3,-3),
    (-4,0,0),(-3,1,1),(-4,2,2),(-3,3,3),(-2,0,2),(-1,1,3),(-2,2,0),(-1,3,1),
    (0,-4,-4),(1,-3,-3),(0,-2,-2),(1,-1,-1),(2,-4,-2),(3,-3,-1),(2,-2,-4),(3,-1,-3),
    (0,-4,0),(1,-3,1),(0,-2,2),(1,-1,3),(2,-4,2),(3,-3,3),(2,-2,0),(3,-1,1),
    (0,0,-4),(1,1,-3),(0,2,-2),(1,3,-1),(2,0,-2),(3,1,-1),(2,2,-4),(3,3,-3),
    (0,0,0),(1,1,1),(0,2,2),(1,3,3),(2,0,2),(3,1,3),(2,2,0),(3,3,1)]"

text \<open>
  A point of the first kind has even coordinates whose sum is a multiple of
  four; a point of the second kind is one of the first kind moved by \<open>(1, 1, 1)\<close>.
\<close>

definition firstKind :: "int \<times> int \<times> int \<Rightarrow> bool" where
  "firstKind k = (case k of (k1, k2, k3) \<Rightarrow>
     even k1 \<and> even k2 \<and> even k3 \<and> (k1 + k2 + k3) mod 4 = 0)"

definition secondKind :: "int \<times> int \<times> int \<Rightarrow> bool" where
  "secondKind k = (case k of (k1, k2, k3) \<Rightarrow> firstKind (k1 - 1, k2 - 1, k3 - 1))"

section \<open>Proofs: the rectangular prism\<close>

lemma fold_snoc_map: "fold (\<lambda>x acc. acc @ [f x]) xs = (\<lambda>acc. acc @ map f xs)"
proof
  fix acc show "fold (\<lambda>x acc. acc @ [f x]) xs acc = acc @ map f xs"
    by (induction xs arbitrary: acc) simp_all
qed

lemma fold_append_concat:
  "fold (\<lambda>x acc. acc @ f x) xs = (\<lambda>acc. acc @ concat (map f xs))"
proof
  fix acc show "fold (\<lambda>x acc. acc @ f x) xs acc = acc @ concat (map f xs)"
    by (induction xs arbitrary: acc) simp_all
qed

lemma prism_as_concat:
  "createRectangularPrismWithCubes w h d s sp =
     concat (map (\<lambda>x. concat (map (\<lambda>y. map (makeCube w h d s sp x y) [0..d - 1])
       [0..h - 1])) [0..w - 1])"
  unfolding createRectangularPrismWithCubes_def
  by (simp add: fold_snoc_map fold_append_concat)

lemma set_prism:
  "set (createRectangularPrismWithCubes w h d s sp) =
     {makeCube w h d s sp x y z | x y z. 0 \<le> x \<and> x < w \<and> 0 \<le> y \<and> y < h \<and> 0 \<le> z \<and> z < d}"
  unfolding prism_as_concat by (auto simp: image_iff) force+

lemma length_prism:
  "length (createRectangularPrismWithCubes w h d s sp) = nat w * nat h * nat d"
  by (simp add: prism_as_concat length_concat comp_def sum_list_triv)

lemma coords_prism:
  "map gridCoord (createRectangularPrismWithCubes w h d s sp) =
     List.product [0..w - 1] (List.product [0..h - 1] [0..d - 1])"
  by (simp add: prism_as_concat product_concat_map map_concat comp_def gridCoord_def makeCube_def Let_def)

lemma upto_snoc_nat: "[0..int (Suc n) - 1] = [0..int n - 1] @ [int n]"
  using upto_rec2 [of 0 "int n"] by simp

lemma sum_upto_linear:
  "sum_list (map (\<lambda>x. real_of_int x * t) [0..int n - 1]) = t * real n * (real n - 1) / 2"
proof (induction n)
  case 0 show ?case by simp
next
  case (Suc n)
  show ?case unfolding upto_snoc_nat using Suc by (simp add: algebra_simps)
qed

lemma centering:
  "sum_list (map (cubePosition s sp w) [0..w - 1]) = 0"
proof (cases "w \<le> 0")
  case True then show ?thesis by simp
next
  case False
  then obtain n where n: "w = int n" using nonneg_int_cases [of w] by auto
  define c where "c = (s + sp) / 2 - real n * (s + sp) / 2"
  have pw: "cubePosition s sp (int n) = (\<lambda>x. real_of_int x * (s + sp) + c)"
    by (rule ext) (simp add: cubePosition_def c_def)
  have "sum_list (map (cubePosition s sp w) [0..w - 1])
      = sum_list (map (\<lambda>x. real_of_int x * (s + sp)) [0..int n - 1]) + real n * c"
    unfolding n pw by (simp add: sum_list_addf sum_list_triv)
  also have "\<dots> = 0" unfolding sum_upto_linear c_def by (simp add: field_simps)
  finally show ?thesis .
qed

lemma fold_add_components:
  "fold (\<lambda>p acc. add acc p) ps a =
     Vector3 (vx a + sum_list (map vx ps)) (vy a + sum_list (map vy ps))
             (vz a + sum_list (map vz ps))"
  by (induction ps arbitrary: a) (simp_all add: add_def)

lemma sumVectors_components:
  "sumVectors ps = Vector3 (sum_list (map vx ps)) (sum_list (map vy ps)) (sum_list (map vz ps))"
  by (simp add: sumVectors_def fold_add_components)

lemma exposed_eq_boundaryAxes:
  "countExposed w h d x y z = boundaryAxes (w, h, d) (x, y, z)"
  by (simp add: countExposed_def boundaryAxes_def)

lemma countExposed_le3: "countExposed w h d x y z \<le> 3"
  by (simp add: countExposed_def)

lemma category_select: "n \<le> 3 \<Longrightarrow> categoryOfCount n = Some (selectMaterial n)"
  by (simp add: selectMaterial_def categoryOfCount_def)

text \<open>
  Claim C7. In a grid with all three dimensions at least \<open>1\<close>, every coordinate
  in range has a cube, and a cube at that coordinate has as exposed-face count
  the number of axes on which the coordinate is \<open>0\<close> or \<open>max - 1\<close>, a number in
  \<open>{0,1,2,3}\<close>, and as material the category of that count: \<open>3\<close> corner,
  \<open>2\<close> edge, \<open>1\<close> face, \<open>0\<close> interior.
\<close>

theorem prism_cell_classification:
  assumes "1 \<le> w" "1 \<le> h" "1 \<le> d"
      and "0 \<le> x" "x < w" "0 \<le> y" "y < h" "0 \<le> z" "z < d"
  shows "(\<exists>c \<in> set (createRectangularPrismWithCubes w h d s sp). gridCoord c = (x, y, z)) \<and>
         (\<forall>c \<in> set (createRectangularPrismWithCubes w h d s sp).
            gridCoord c = (x, y, z) \<longrightarrow>
              exposedFaceCount c = boundaryAxes (w, h, d) (x, y, z) \<and>
              exposedFaceCount c \<in> {0, 1, 2, 3} \<and>
              categoryOfCount (exposedFaceCount c) = Some (cubeMaterial c))"
proof (intro conjI ballI impI)
  have "makeCube w h d s sp x y z \<in> set (createRectangularPrismWithCubes w h d s sp)"
    unfolding set_prism using assms by blast
  moreover have "gridCoord (makeCube w h d s sp x y z) = (x, y, z)"
    by (simp add: gridCoord_def makeCube_def Let_def)
  ultimately show "\<exists>c \<in> set (createRectangularPrismWithCubes w h d s sp). gridCoord c = (x, y, z)"
    by blast
next
  fix c
  assume c: "c \<in> set (createRectangularPrismWithCubes w h d s sp)"
     and g: "gridCoord c = (x, y, z)"
  from c obtain x' y' z' where mk: "c = makeCube w h d s sp x' y' z'"
    unfolding set_prism by blast
  with g have eq: "x' = x" "y' = y" "z' = z"
    by (simp_all add: gridCoord_def makeCube_def Let_def)
  have n: "exposedFaceCount c = countExposed w h d x y z"
    by (simp add: mk eq makeCube_def Let_def)
  show "exposedFaceCount c = boundaryAxes (w, h, d) (x, y, z)"
    by (simp only: n exposed_eq_boundaryAxes)
  have le: "exposedFaceCount c \<le> 3"
    by (simp only: n countExposed_le3)
  then show "exposedFaceCount c \<in> {0, 1, 2, 3}" by auto
  have "cubeMaterial c = selectMaterial (exposedFaceCount c)"
    by (simp add: mk makeCube_def Let_def)
  with le show "categoryOfCount (exposedFaceCount c) = Some (cubeMaterial c)"
    by (simp only: category_select)
qed

theorem prism_cell_classification_witness:
  "(1::int) \<le> 2 \<and> (1::int) \<le> 5 \<and> (1::int) \<le> 11 \<and>
   makeCube 2 5 11 1 0.2 1 0 10 \<in> set (createRectangularPrismWithCubes 2 5 11 1 0.2) \<and>
   exposedFaceCount (makeCube 2 5 11 1 0.2 1 0 10) = 3 \<and>
   cubeMaterial (makeCube 2 5 11 1 0.2 1 0 10) = threeFacesExposedMaterial"
proof -
  have m: "makeCube 2 5 11 1 0.2 1 0 10 \<in> set (createRectangularPrismWithCubes 2 5 11 1 0.2)"
    unfolding set_prism by force
  have g: "gridCoord (makeCube 2 5 11 1 0.2 1 0 10) = (1, 0, 10)"
    by (simp add: gridCoord_def makeCube_def Let_def)
  have b: "boundaryAxes (2, 5, 11) (1, 0, 10) = 3"
    by (simp add: boundaryAxes_def)
  have "\<forall>c \<in> set (createRectangularPrismWithCubes 2 5 11 1 0.2).
          gridCoord c = (1, 0, 10) \<longrightarrow>
            exposedFaceCount c = boundaryAxes (2, 5, 11) (1, 0, 10) \<and>
            exposedFaceCount c \<in> {0, 1, 2, 3} \<and>
            categoryOfCount (exposedFaceCount c) = Some (cubeMaterial c)"
    by (rule conjunct2 [OF prism_cell_classification [of 2 5 11 1 0 10 1 "0.2"]]) simp_all
  with m g have e: "exposedFaceCount (makeCube 2 5 11 1 0.2 1 0 10) = boundaryAxes (2, 5, 11) (1, 0, 10)"
   and k: "categoryOfCount (exposedFaceCount (makeCube 2 5 11 1 0.2 1 0 10))
          = Some (cubeMaterial (makeCube 2 5 11 1 0.2 1 0 10))"
    by blast+
  from k have "cubeMaterial (makeCube 2 5 11 1 0.2 1 0 10) = threeFacesExposedMaterial"
    unfolding e b by (simp add: categoryOfCount_def)
  with e b m show ?thesis by simp
qed

lemma u10: "[0..10::int] = [0,1,2,3,4,5,6,7,8,9,10]" by (simp add: upto_rec1)
lemma u4: "[0..4::int] = [0,1,2,3,4]" by (simp add: upto_rec1)
lemma u1: "[0..1::int] = [0,1]" by (simp add: upto_rec1)

lemma distinct_coords_prism:
  "distinct (map gridCoord (createRectangularPrismWithCubes w h d s sp))"
  by (simp add: coords_prism distinct_product)

lemma set_coords_prism:
  "set (map gridCoord (createRectangularPrismWithCubes w h d s sp)) =
     {0..w - 1} \<times> {0..h - 1} \<times> {0..d - 1}"
  by (simp only: coords_prism set_product set_upto)

text \<open>
  Claim C6. The prism of the script, \<open>2 \<times> 5 \<times> 11\<close> with cube size \<open>1\<close> and
  spacing \<open>0.2\<close>, has exactly \<open>110\<close> cubes, one for every coordinate in range and
  none twice; exactly \<open>8\<close> of them have three exposed faces and none has zero.
\<close>

theorem prism_2_5_11_counts:
  "length (createRectangularPrismWithCubes 2 5 11 1 0.2) = 110 \<and>
   distinct (map gridCoord (createRectangularPrismWithCubes 2 5 11 1 0.2)) \<and>
   set (map gridCoord (createRectangularPrismWithCubes 2 5 11 1 0.2))
     = {0..1} \<times> {0..4} \<times> {0..10} \<and>
   length (filter (\<lambda>c. exposedFaceCount c = 3)
     (createRectangularPrismWithCubes 2 5 11 1 0.2)) = 8 \<and>
   length (filter (\<lambda>c. exposedFaceCount c = 0)
     (createRectangularPrismWithCubes 2 5 11 1 0.2)) = 0"
proof (intro conjI)
  show "length (createRectangularPrismWithCubes 2 5 11 1 0.2) = 110"
    by (simp add: length_prism)
  show "distinct (map gridCoord (createRectangularPrismWithCubes 2 5 11 1 0.2))"
    by (rule distinct_coords_prism)
  show "set (map gridCoord (createRectangularPrismWithCubes 2 5 11 1 0.2))
     = {0..1} \<times> {0..4} \<times> {0..10}"
    unfolding set_coords_prism by simp
  show "length (filter (\<lambda>c. exposedFaceCount c = 3)
     (createRectangularPrismWithCubes 2 5 11 1 0.2)) = 8"
    by (simp add: prism_as_concat makeCube_def countExposed_def u10 u4 u1)
  show "length (filter (\<lambda>c. exposedFaceCount c = 0)
     (createRectangularPrismWithCubes 2 5 11 1 0.2)) = 0"
    by (simp add: prism_as_concat makeCube_def countExposed_def u10 u4 u1)
qed

lemma sum_list_concat_real:
  "sum_list (concat xss) = (\<Sum>xs\<leftarrow>xss. sum_list xs :: real)"
  by (induction xss) simp_all

lemma position_makeCube:
  "position (makeCube w h d s sp x y z) =
     Vector3 (cubePosition s sp w x) (cubePosition s sp h y) (cubePosition s sp d z)"
  by (simp add: makeCube_def Let_def)

lemma sum_positions_prism:
  "sumVectors (map position (createRectangularPrismWithCubes w h d s sp)) = Vector3 0 0 0"
proof -
  have X: "sum_list (map vx (map position (createRectangularPrismWithCubes w h d s sp))) = 0"
    by (simp add: prism_as_concat map_concat sum_list_concat_real comp_def position_makeCube
          sum_list_triv sum_list_const_mult centering)
  have Y: "sum_list (map vy (map position (createRectangularPrismWithCubes w h d s sp))) = 0"
    by (simp add: prism_as_concat map_concat sum_list_concat_real comp_def position_makeCube
          sum_list_triv sum_list_const_mult centering)
  have Z: "sum_list (map vz (map position (createRectangularPrismWithCubes w h d s sp))) = 0"
    by (simp add: prism_as_concat map_concat sum_list_concat_real comp_def position_makeCube
          sum_list_triv sum_list_const_mult centering)
  show ?thesis unfolding sumVectors_components X Y Z ..
qed

text \<open>
  Claim C8. Every cube is placed at
  \<open>coord * (size + spacing) - dimension * (size + spacing) / 2 + (size + spacing) / 2\<close>
  on each axis, and for dimensions of at least \<open>1\<close> the arithmetic mean of all
  cube positions is the origin.
\<close>

theorem prism_grid_centered:
  assumes "1 \<le> w" "1 \<le> h" "1 \<le> d"
  shows "(\<forall>c \<in> set (createRectangularPrismWithCubes w h d s sp).
            vx (position c) = of_int (gridX c) * (s + sp) - (of_int w * (s + sp)) / 2 + (s + sp) / 2 \<and>
            vy (position c) = of_int (gridY c) * (s + sp) - (of_int h * (s + sp)) / 2 + (s + sp) / 2 \<and>
            vz (position c) = of_int (gridZ c) * (s + sp) - (of_int d * (s + sp)) / 2 + (s + sp) / 2) \<and>
         createRectangularPrismWithCubes w h d s sp \<noteq> [] \<and>
         meanVector (map position (createRectangularPrismWithCubes w h d s sp)) = Vector3 0 0 0"
proof (intro conjI ballI)
  fix c assume "c \<in> set (createRectangularPrismWithCubes w h d s sp)"
  then obtain x y z where mk: "c = makeCube w h d s sp x y z"
    unfolding set_prism by blast
  show "vx (position c) = of_int (gridX c) * (s + sp) - (of_int w * (s + sp)) / 2 + (s + sp) / 2"
    by (simp add: mk makeCube_def Let_def cubePosition_def)
  show "vy (position c) = of_int (gridY c) * (s + sp) - (of_int h * (s + sp)) / 2 + (s + sp) / 2"
    by (simp add: mk makeCube_def Let_def cubePosition_def)
  show "vz (position c) = of_int (gridZ c) * (s + sp) - (of_int d * (s + sp)) / 2 + (s + sp) / 2"
    by (simp add: mk makeCube_def Let_def cubePosition_def)
next
  have "length (createRectangularPrismWithCubes w h d s sp) = nat w * nat h * nat d"
    by (rule length_prism)
  with assms show "createRectangularPrismWithCubes w h d s sp \<noteq> []" by auto
next
  show "meanVector (map position (createRectangularPrismWithCubes w h d s sp)) = Vector3 0 0 0"
    unfolding meanVector_def sum_positions_prism
    by (simp add: divideScalar_def multiplyScalar_def)
qed

theorem prism_grid_centered_witness:
  "(1::int) \<le> 2 \<and> (1::int) \<le> 5 \<and> (1::int) \<le> 11 \<and>
   meanVector (map position (createRectangularPrismWithCubes 2 5 11 1 0.2)) = Vector3 0 0 0 \<and>
   position (makeCube 2 5 11 1 0.2 0 0 0) = Vector3 (- 0.6) (- 2.4) (- 6)"
proof -
  have "meanVector (map position (createRectangularPrismWithCubes 2 5 11 1 0.2)) = Vector3 0 0 0"
    using prism_grid_centered [of 2 5 11 1 "0.2"] by simp
  moreover have "position (makeCube 2 5 11 1 0.2 0 0 0) = Vector3 (- 0.6) (- 2.4) (- 6)"
    by (simp add: position_makeCube cubePosition_def)
  ultimately show ?thesis by simp
qed

section \<open>Proofs: the cluster of tetrahedra\<close>

lemma upt4: "[0..<4] = [0, 1, 2, 3::nat]"
  by (simp add: upt_rec)

lemma centralVertices_eq:
  "centralVertices s =
     [Vector3 s s s, Vector3 s (- s) (- s), Vector3 (- s) s (- s), Vector3 (- s) (- s) s]"
  by (simp add: centralVertices_def createRegularTetrahedron_def multiplyScalar_def add_def)

lemma lengthSq_nonneg: "0 \<le> lengthSq a"
  by (simp add: lengthSq_def)

lemma length_v_nonneg: "0 \<le> length_v a"
  by (simp add: length_v_def lengthSq_nonneg)

lemma length_v_multiplyScalar: "length_v (multiplyScalar a c) = \<bar>c\<bar> * length_v a"
proof -
  have "lengthSq (multiplyScalar a c) = c\<^sup>2 * lengthSq a"
    by (simp add: lengthSq_def multiplyScalar_def power2_eq_square algebra_simps)
  then show ?thesis
    by (simp add: length_v_def real_sqrt_mult)
qed

lemma distanceTo_length: "distanceTo a b = length_v (subVectors a b)"
  by (simp add: distanceTo_def distanceToSquared_def length_v_def lengthSq_def subVectors_def)

lemma length_v_normalize: "length_v a \<noteq> 0 \<Longrightarrow> length_v (normalize_v a) = 1"
  using length_v_nonneg [of a]
  by (simp add: normalize_v_def divideScalar_def length_v_multiplyScalar)

lemma placement_generic:
  assumes L: "length_v (subVectors opp mid) \<noteq> 0" and k: "0 \<le> k"
  defines "d \<equiv> normalize_v (subVectors opp mid)"
  defines "n \<equiv> subVectors mid (multiplyScalar d k)"
  shows "length_v d = 1"
    and "distanceTo n mid = k"
    and "subVectors n mid = multiplyScalar (subVectors opp mid) (- (k / length_v (subVectors opp mid)))"
    and "d = multiplyScalar (subVectors opp mid) (1 / length_v (subVectors opp mid))"
proof -
  show "d = multiplyScalar (subVectors opp mid) (1 / length_v (subVectors opp mid))"
    using L by (simp add: d_def normalize_v_def divideScalar_def)
  show d1: "length_v d = 1" unfolding d_def using L by (rule length_v_normalize)
  have "subVectors n mid = multiplyScalar d (- k)"
    by (simp add: n_def subVectors_def multiplyScalar_def)
  then have "distanceTo n mid = \<bar>- k\<bar> * length_v d"
    by (simp only: distanceTo_length length_v_multiplyScalar)
  with d1 k show "distanceTo n mid = k" by simp
  show "subVectors n mid = multiplyScalar (subVectors opp mid) (- (k / length_v (subVectors opp mid)))"
    using L by (simp add: n_def d_def normalize_v_def divideScalar_def subVectors_def multiplyScalar_def)
qed

lemma lt4_cases: "i < 4 \<Longrightarrow> i = 0 \<or> i = 1 \<or> i = 2 \<or> i = (3::nat)"
  by arith

lemma centerOfThree_central:
  assumes "i < 4"
  shows "centerOfThree (centralVertices s) i
           = multiplyScalar (centralVertices s ! ((i + 3) mod 4)) (- (1 / 3))"
  using lt4_cases [OF assms]
  by (auto simp: centerOfThree_def centralVertices_eq add_def divideScalar_def multiplyScalar_def)

lemma length_v_central:
  assumes "i < 4"
  shows "length_v (centralVertices s ! i) = \<bar>s\<bar> * sqrt 3"
proof -
  have "lengthSq (centralVertices s ! i) = s\<^sup>2 * 3"
    using lt4_cases [OF assms]
    by (auto simp: centralVertices_eq lengthSq_def power2_eq_square)
  then show ?thesis by (simp add: length_v_def real_sqrt_mult)
qed

lemma opposite_minus_center:
  assumes "i < 4"
  shows "subVectors (centralVertices s ! ((i + 3) mod 4)) (centerOfThree (centralVertices s) i)
           = multiplyScalar (centralVertices s ! ((i + 3) mod 4)) (4 / 3)"
  unfolding centerOfThree_central [OF assms]
  by (simp add: subVectors_def multiplyScalar_def)

lemma length_opposite_minus_center:
  assumes "i < 4"
  shows "length_v (subVectors (centralVertices s ! ((i + 3) mod 4))
           (centerOfThree (centralVertices s) i)) = 4 / 3 * (\<bar>s\<bar> * sqrt 3)"
  unfolding opposite_minus_center [OF assms] length_v_multiplyScalar
  by (simp add: length_v_central)

lemma newVertexAt_unfold:
  "newVertexAt v s i =
     subVectors (centerOfThree v i)
       (multiplyScalar (normalize_v (subVectors (v ! ((i + 3) mod 4)) (centerOfThree v i))) (s * 1.63))"
  by (simp add: newVertexAt_def centerOfThree_def Let_def)

lemma newVertexAt_closed:
  assumes "i < 4" "0 < s"
  shows "newVertexAt (centralVertices s) s i
           = multiplyScalar (centralVertices s ! ((i + 3) mod 4)) (- offsetFactor)"
proof -
  let ?opp = "centralVertices s ! ((i + 3) mod 4)"
  let ?mid = "centerOfThree (centralVertices s) i"
  have L: "length_v (subVectors ?opp ?mid) = 4 / 3 * (s * sqrt 3)"
    using length_opposite_minus_center [OF assms(1), of s] assms(2) by simp
  have nz: "4 / 3 * (s * sqrt 3) \<noteq> 0" using assms(2) by simp
  have "normalize_v (subVectors ?opp ?mid) = multiplyScalar ?opp (1 / (s * sqrt 3))"
    unfolding normalize_v_def L using nz
    by (simp add: opposite_minus_center [OF assms(1)] divideScalar_def multiplyScalar_def)
  then show ?thesis
    unfolding newVertexAt_unfold
    using assms(2)
    by (simp add: centerOfThree_central [OF assms(1)] subVectors_def multiplyScalar_def
          offsetFactor_def algebra_simps)
qed

lemma newVerticesLoop_eq:
  "newVerticesLoop v s = [newVertexAt v s 0, newVertexAt v s 1, newVertexAt v s 2, newVertexAt v s 3]"
  by (simp add: newVerticesLoop_def upt4)

lemma newVerticesLoop_nth: "i < 4 \<Longrightarrow> newVerticesLoop v s ! i = newVertexAt v s i"
  by (auto simp: newVerticesLoop_eq dest!: lt4_cases)

lemma sceneTetrahedrons_eq:
  "sceneTetrahedrons (createMultipleTetrahedrons s) =
     \<lparr> vertices_of = centralVertices s, center_of = Vector3 0 0 0, color_of = colors ! 0 \<rparr> #
     map (additionalTetrahedron (centralVertices s) (newVerticesLoop (centralVertices s) s))
       [0, 1, 2, 3]"
  by (simp add: createMultipleTetrahedrons_def Let_def upt4 centralVertices_def
        createRegularTetrahedron_def)

lemma derived_tetrahedron_vertices:
  assumes "i < 4"
  shows "vertices_of (sceneTetrahedrons (createMultipleTetrahedrons s) ! (i + 1)) =
           [centralVertices s ! i, centralVertices s ! ((i + 1) mod 4),
            centralVertices s ! ((i + 2) mod 4), newVertexAt (centralVertices s) s i]"
  using lt4_cases [OF assms]
  by (auto simp: sceneTetrahedrons_eq additionalTetrahedron_def Let_def newVerticesLoop_eq)

lemma meanVector_three:
  "meanVector [a, b, c] = divideScalar (add (add (add (Vector3 0 0 0) a) b) c) 3"
  by (simp add: meanVector_def sumVectors_def)

text \<open>
  Claim C5. For a positive scale and \<open>i\<close> in \<open>0..3\<close>, the new vertex of derived
  tetrahedron \<open>i\<close> is \<open>mid - d * (scale * 1.63)\<close>, with \<open>mid\<close> the mean of the
  central vertices \<open>i\<close>, \<open>(i+1) mod 4\<close>, \<open>(i+2) mod 4\<close> and \<open>d\<close> the unit vector
  from \<open>mid\<close> toward the opposite vertex \<open>(i+3) mod 4\<close>: it is at distance
  \<open>scale * 1.63\<close> from \<open>mid\<close>, on the line through \<open>mid\<close> and the opposite
  vertex, on the side away from it.
\<close>

theorem new_vertex_placement:
  assumes "0 < scale" and "i < 4"
  shows "let v = vertices_of (createRegularTetrahedron (Vector3 0 0 0) scale);
             mid = meanVector [v ! i, v ! ((i + 1) mod 4), v ! ((i + 2) mod 4)];
             opposite = v ! ((i + 3) mod 4);
             d = normalize_v (subVectors opposite mid);
             n = vertices_of (sceneTetrahedrons (createMultipleTetrahedrons scale) ! (i + 1)) ! 3
         in length_v d = 1 \<and>
            (\<exists>c > 0. d = multiplyScalar (subVectors opposite mid) c) \<and>
            n = subVectors mid (multiplyScalar d (scale * 1.63)) \<and>
            distanceTo n mid = scale * 1.63 \<and>
            (\<exists>t > 0. subVectors n mid = multiplyScalar (subVectors opposite mid) (- t))"
proof -
  let ?v = "centralVertices scale"
  let ?mid = "centerOfThree ?v i"
  let ?opp = "?v ! ((i + 3) mod 4)"
  let ?d = "normalize_v (subVectors ?opp ?mid)"
  let ?n = "subVectors ?mid (multiplyScalar ?d (scale * 1.63))"
  have L: "length_v (subVectors ?opp ?mid) = 4 / 3 * (scale * sqrt 3)"
    using length_opposite_minus_center [OF assms(2), of scale] assms(1) by simp
  have Lpos: "0 < length_v (subVectors ?opp ?mid)" unfolding L using assms(1) by simp
  then have Lnz: "length_v (subVectors ?opp ?mid) \<noteq> 0" by simp
  have k: "0 \<le> scale * 1.63" using assms(1) by simp
  note g = placement_generic [OF Lnz k]
  have n: "vertices_of (sceneTetrahedrons (createMultipleTetrahedrons scale) ! (i + 1)) ! 3 = ?n"
    unfolding derived_tetrahedron_vertices [OF assms(2)] by (simp add: newVertexAt_unfold)
  have t: "0 < scale * 1.63 / length_v (subVectors ?opp ?mid)"
    using Lpos assms(1) by simp
  have "\<exists>t > 0. subVectors ?n ?mid = multiplyScalar (subVectors ?opp ?mid) (- t)"
    using g(3) t by blast
  moreover have "\<exists>c > 0. ?d = multiplyScalar (subVectors ?opp ?mid) c"
    using g(4) Lpos by (intro exI [of _ "1 / length_v (subVectors ?opp ?mid)"]) simp
  moreover have mid: "meanVector [?v ! i, ?v ! ((i + 1) mod 4), ?v ! ((i + 2) mod 4)] = ?mid"
    by (simp only: meanVector_three centerOfThree_def)
  ultimately show ?thesis
    unfolding Let_def centralVertices_def [symmetric] mid n
    using g(1) g(2) by (intro conjI) simp_all
qed

theorem new_vertex_placement_witness:
  "(0::real) < 1 \<and> (0::nat) < 4 \<and>
   distanceTo (vertices_of (sceneTetrahedrons (createMultipleTetrahedrons 1) ! 1) ! 3)
     (meanVector [Vector3 1 1 1, Vector3 1 (- 1) (- 1), Vector3 (- 1) 1 (- 1)]) = 1.63"
proof -
  have a: "0 < (1::real)" "(0::nat) < 4" by simp_all
  note th = new_vertex_placement [OF a, unfolded Let_def]
  note dist = th [THEN conjunct2, THEN conjunct2, THEN conjunct2, THEN conjunct1]
  show ?thesis using dist
    by (simp add: createRegularTetrahedron_def multiplyScalar_def add_def)
qed

lemma fst_toFixed6: "fst (toFixed6 x) = (x < 0)"
  by (simp add: toFixed6_def Let_def)

lemma keyOf_signs: "keyOf u = keyOf w \<Longrightarrow> signs u = signs w"
proof -
  assume "keyOf u = keyOf w"
  then have "toFixed6 (vx u) = toFixed6 (vx w)" "toFixed6 (vy u) = toFixed6 (vy w)"
    "toFixed6 (vz u) = toFixed6 (vz w)"
    by (simp_all add: keyOf_def)
  then have "fst (toFixed6 (vx u)) = fst (toFixed6 (vx w))"
    "fst (toFixed6 (vy u)) = fst (toFixed6 (vy w))"
    "fst (toFixed6 (vz u)) = fst (toFixed6 (vz w))"
    by simp_all
  then show ?thesis by (simp add: signs_def fst_toFixed6)
qed

lemma keyOf_neq: "signs u \<noteq> signs w \<Longrightarrow> (keyOf u = keyOf w) = False"
  using keyOf_signs by blast

lemma offsetFactor_pos: "0 < offsetFactor"
  by (simp add: offsetFactor_def add_pos_pos)

lemma newVerticesLoop_coords:
  assumes "0 < s"
  shows "newVerticesLoop (centralVertices s) s =
     [Vector3 (s * offsetFactor) (s * offsetFactor) (- (s * offsetFactor)),
      Vector3 (- (s * offsetFactor)) (- (s * offsetFactor)) (- (s * offsetFactor)),
      Vector3 (- (s * offsetFactor)) (s * offsetFactor) (s * offsetFactor),
      Vector3 (s * offsetFactor) (- (s * offsetFactor)) (s * offsetFactor)]"
proof -
  have "newVertexAt (centralVertices s) s 0
          = multiplyScalar (centralVertices s ! ((0 + 3) mod 4)) (- offsetFactor)"
       "newVertexAt (centralVertices s) s 1
          = multiplyScalar (centralVertices s ! ((1 + 3) mod 4)) (- offsetFactor)"
       "newVertexAt (centralVertices s) s 2
          = multiplyScalar (centralVertices s ! ((2 + 3) mod 4)) (- offsetFactor)"
       "newVertexAt (centralVertices s) s 3
          = multiplyScalar (centralVertices s ! ((3 + 3) mod 4)) (- offsetFactor)"
    by (rule newVertexAt_closed, simp, rule assms)+
  then show ?thesis
    unfolding newVerticesLoop_eq
    by (simp add: centralVertices_eq multiplyScalar_def)
qed

lemma vertexSpheresOf_map:
  "vertexSpheresOf ts = snd (fold (fold addVertexSphere) (map vertices_of ts) ({}, []))"
  by (simp add: vertexSpheresOf_def fold_map comp_def)

lemma dedup_explicit:
  assumes a: "0 < a" and b: "0 < b"
  shows "snd (fold (fold addVertexSphere)
     [[Vector3 a a a, Vector3 a (- a) (- a), Vector3 (- a) a (- a), Vector3 (- a) (- a) a],
      [Vector3 a a a, Vector3 a (- a) (- a), Vector3 (- a) a (- a), Vector3 b b (- b)],
      [Vector3 a (- a) (- a), Vector3 (- a) a (- a), Vector3 (- a) (- a) a, Vector3 (- b) (- b) (- b)],
      [Vector3 (- a) a (- a), Vector3 (- a) (- a) a, Vector3 a a a, Vector3 (- b) b b],
      [Vector3 (- a) (- a) a, Vector3 a a a, Vector3 a (- a) (- a), Vector3 b (- b) b]] ({}, []))
   = [Vector3 a a a, Vector3 a (- a) (- a), Vector3 (- a) a (- a), Vector3 (- a) (- a) a,
      Vector3 b b (- b), Vector3 (- b) (- b) (- b), Vector3 (- b) b b, Vector3 b (- b) b]"
  using a b
  by (simp add: addVertexSphere_def Let_def keyOf_neq signs_def)

lemma keys_distinct_explicit:
  assumes a: "0 < a" and b: "0 < b"
  shows "distinct (map keyOf
     [Vector3 a a a, Vector3 a (- a) (- a), Vector3 (- a) a (- a), Vector3 (- a) (- a) a,
      Vector3 b b (- b), Vector3 (- b) (- b) (- b), Vector3 (- b) b b, Vector3 b (- b) b])"
  using a b by (simp add: keyOf_neq signs_def)

lemma cluster_vertices:
  assumes "0 < s"
  shows "map vertices_of (sceneTetrahedrons (createMultipleTetrahedrons s)) =
     [[Vector3 s s s, Vector3 s (- s) (- s), Vector3 (- s) s (- s), Vector3 (- s) (- s) s],
      [Vector3 s s s, Vector3 s (- s) (- s), Vector3 (- s) s (- s),
       Vector3 (s * offsetFactor) (s * offsetFactor) (- (s * offsetFactor))],
      [Vector3 s (- s) (- s), Vector3 (- s) s (- s), Vector3 (- s) (- s) s,
       Vector3 (- (s * offsetFactor)) (- (s * offsetFactor)) (- (s * offsetFactor))],
      [Vector3 (- s) s (- s), Vector3 (- s) (- s) s, Vector3 s s s,
       Vector3 (- (s * offsetFactor)) (s * offsetFactor) (s * offsetFactor)],
      [Vector3 (- s) (- s) s, Vector3 s s s, Vector3 s (- s) (- s),
       Vector3 (s * offsetFactor) (- (s * offsetFactor)) (s * offsetFactor)]]"
  unfolding sceneTetrahedrons_eq newVerticesLoop_coords [OF assms]
  by (simp add: additionalTetrahedron_def Let_def centralVertices_def [symmetric] centralVertices_eq)

lemma sceneVertexSpheres_eq:
  "sceneVertexSpheres (createMultipleTetrahedrons s)
     = vertexSpheresOf (sceneTetrahedrons (createMultipleTetrahedrons s))"
  by (simp add: createMultipleTetrahedrons_def Let_def)

text \<open>
  Claim C2. For a positive scale the cluster has exactly five tetrahedra with
  twenty vertex instances; their keys form a set of exactly eight, and the
  spheres added are the four central vertices followed by the four new
  vertices, all with different keys (so the new vertices differ from each
  other and from every central vertex).
\<close>

theorem cluster_has_eight_distinct_vertices:
  assumes "0 < scale"
  shows "let cluster = sceneTetrahedrons (createMultipleTetrahedrons scale);
             instances = concat (map vertices_of cluster);
             centralFour = vertices_of (cluster ! 0);
             newFour = map (\<lambda>i. vertices_of (cluster ! (i + 1)) ! 3) [0, 1, 2, 3];
             spheres = sceneVertexSpheres (createMultipleTetrahedrons scale)
         in length cluster = 5 \<and> length instances = 20 \<and>
            card (keyOf ` set instances) = 8 \<and>
            spheres = centralFour @ newFour \<and>
            length spheres = 8 \<and>
            distinct (map keyOf spheres) \<and> distinct spheres"
proof -
  let ?cluster = "sceneTetrahedrons (createMultipleTetrahedrons scale)"
  let ?b = "scale * offsetFactor"
  let ?eight = "[Vector3 scale scale scale, Vector3 scale (- scale) (- scale),
      Vector3 (- scale) scale (- scale), Vector3 (- scale) (- scale) scale,
      Vector3 ?b ?b (- ?b), Vector3 (- ?b) (- ?b) (- ?b), Vector3 (- ?b) ?b ?b,
      Vector3 ?b (- ?b) ?b]"
  have b: "0 < ?b" using assms offsetFactor_pos by simp
  note cv = cluster_vertices [OF assms]
  have len: "length ?cluster = 5" by (simp add: sceneTetrahedrons_eq)
  have inst: "length (concat (map vertices_of ?cluster)) = 20" unfolding cv by simp
  have sph: "sceneVertexSpheres (createMultipleTetrahedrons scale) = ?eight"
    unfolding sceneVertexSpheres_eq vertexSpheresOf_map cv
    by (rule dedup_explicit [OF assms b])
  have dk: "distinct (map keyOf ?eight)" by (rule keys_distinct_explicit [OF assms b])
  then have d: "distinct ?eight" unfolding distinct_map by (rule conjunct1)
  have "keyOf ` set (concat (map vertices_of ?cluster)) = set (map keyOf ?eight)"
    unfolding cv by auto
  then have card: "card (keyOf ` set (concat (map vertices_of ?cluster))) = 8"
    using distinct_card [OF dk] by simp
  have nth: "vertices_of (?cluster ! 0) = map vertices_of ?cluster ! 0"
    "\<And>i. i < 4 \<Longrightarrow> vertices_of (?cluster ! (i + 1)) = map vertices_of ?cluster ! (i + 1)"
    using len by simp_all
  have parts: "vertices_of (?cluster ! 0)
        @ map (\<lambda>i. vertices_of (?cluster ! (i + 1)) ! 3) [0, 1, 2, 3] = ?eight"
    using nth(2) [of 0] nth(2) [of 1] nth(2) [of 2] nth(2) [of 3]
    unfolding nth(1) cv by simp
  show ?thesis
    unfolding Let_def parts sph using len inst card dk d by simp
qed

theorem cluster_has_eight_distinct_vertices_witness:
  "(0::real) < 1 \<and> length (sceneTetrahedrons (createMultipleTetrahedrons 1)) = 5 \<and>
   length (sceneVertexSpheres (createMultipleTetrahedrons 1)) = 8"
proof -
  have a: "(0::real) < 1" by simp
  note th = cluster_has_eight_distinct_vertices [OF a, unfolded Let_def]
  from th [THEN conjunct1]
       th [THEN conjunct2, THEN conjunct2, THEN conjunct2, THEN conjunct2, THEN conjunct1]
  show ?thesis by simp
qed

lemma offsetFactor_square: "3 * offsetFactor\<^sup>2 - 2 * offsetFactor + 3 = 1.63\<^sup>2 + 8 / 3"
proof -
  have r: "sqrt 3 * sqrt 3 = 3" by simp
  have "(1.63 / sqrt 3)\<^sup>2 = 1.63\<^sup>2 / 3"
    by (simp add: power_divide)
  then have "3 * (1 / 3 + 1.63 / sqrt 3)\<^sup>2
      = 1 / 3 + 2 * (1.63 / sqrt 3) + 1.63\<^sup>2"
    by (simp add: power2_sum algebra_simps power_divide)
  then show ?thesis unfolding offsetFactor_def by (simp add: algebra_simps)
qed

lemma new_edge_squared:
  "distanceToSquared (Vector3 q q (- q)) (Vector3 1 1 1) = 3 * q\<^sup>2 - 2 * q + 3"
  "distanceToSquared (Vector3 q q (- q)) (Vector3 1 (- 1) (- 1)) = 3 * q\<^sup>2 - 2 * q + 3"
  "distanceToSquared (Vector3 q q (- q)) (Vector3 (- 1) 1 (- 1)) = 3 * q\<^sup>2 - 2 * q + 3"
  by (simp_all add: distanceToSquared_def power2_eq_square algebra_simps)

lemma sqrt8: "sqrt 8 = 2 * sqrt 2"
proof -
  have "sqrt 8 = sqrt (4 * 2)" by simp
  also have "\<dots> = 2 * sqrt 2" by (simp only: real_sqrt_mult real_sqrt_four)
  finally show ?thesis .
qed

text \<open>
  Claim C1, at the script's own scale \<open>1\<close>. The claim asks for all six edges of a
  derived tetrahedron to have the central edge length \<open>2 * sqrt 2 * scale\<close>. The
  three edges among the shared vertices do; the three edges at the new vertex
  have length \<open>sqrt (1.63\<^sup>2 + 8 / 3)\<close>, which is shorter.
\<close>

theorem derived_tetrahedron_not_regular:
  "let cluster = sceneTetrahedrons (createMultipleTetrahedrons 1);
       central = vertices_of (cluster ! 0);
       derived = vertices_of (cluster ! 1)
   in distanceTo (central ! 0) (central ! 1) = 2 * sqrt 2 * 1 \<and>
      distanceTo (derived ! 0) (derived ! 1) = 2 * sqrt 2 * 1 \<and>
      distanceTo (derived ! 3) (derived ! 0) = sqrt (1.63\<^sup>2 + 8 / 3) \<and>
      distanceTo (derived ! 3) (derived ! 1) = sqrt (1.63\<^sup>2 + 8 / 3) \<and>
      distanceTo (derived ! 3) (derived ! 2) = sqrt (1.63\<^sup>2 + 8 / 3) \<and>
      sqrt (1.63\<^sup>2 + 8 / 3) < 2 * sqrt 2 * 1"
proof -
  let ?cluster = "sceneTetrahedrons (createMultipleTetrahedrons 1)"
  have one: "(0::real) < 1" by simp
  note cv = cluster_vertices [OF one]
  have len: "length ?cluster = 5" by (simp add: sceneTetrahedrons_eq)
  have c: "vertices_of (?cluster ! 0) = map vertices_of ?cluster ! 0"
    and d: "vertices_of (?cluster ! 1) = map vertices_of ?cluster ! 1"
    using len by simp_all
  have e: "sqrt (1.63\<^sup>2 + 8 / 3) < 2 * sqrt 2 * 1"
    unfolding mult_1_right sqrt8 [symmetric] by (simp add: power2_eq_square)
  have central: "distanceTo (Vector3 1 1 1) (Vector3 1 (- 1) (- 1)) = 2 * sqrt 2 * 1"
    by (simp add: distanceTo_def distanceToSquared_def sqrt8)
  show ?thesis
    unfolding Let_def c d cv
    using e central
    by (simp add: distanceTo_def new_edge_squared offsetFactor_square)
qed

section \<open>Proofs: the diamond lattice\<close>

lemma emitAtoms_emitAtoms: "emitAtoms ps (emitAtoms qs st) = emitAtoms (qs @ ps) st"
  by (simp add: emitAtoms_def)

lemma emitAtoms_Nil: "emitAtoms [] st = st"
  by (simp add: emitAtoms_def)

lemma fold_emitAtoms: "fold (\<lambda>x. emitAtoms (f x)) xs st = emitAtoms (concat (map f xs)) st"
  by (induction xs arbitrary: st) (simp_all add: emitAtoms_Nil emitAtoms_emitAtoms)

lemma placeAtomPair_emit:
  "placeAtomPair a bx by bz pos =
     emitAtoms [Vector3 (bx + fst pos * a) (by + fst (snd pos) * a) (bz + snd (snd pos) * a),
                Vector3 (bx + fst pos * a + 0.25 * a) (by + fst (snd pos) * a + 0.25 * a)
                        (bz + snd (snd pos) * a + 0.25 * a)]"
  by (rule ext) (simp add: placeAtomPair_def createAtom_def emitAtoms_def Let_def split: prod.splits)

lemma placeUnitCell_emit:
  "placeUnitCell cx cy cz a x y z = emitAtoms (cellAtoms cx cy cz a (x, y, z))"
  by (rule ext)
     (simp add: placeUnitCell_def Let_def placeAtomPair_emit fold_emitAtoms fccPositions_def
        cellAtoms_def fccOffsets_def primaryAtom_def secondAtom_def cellBase_def add_def
        multiplyScalar_def emitAtoms_emitAtoms)

lemma concat_product:
  "concat (map (\<lambda>x. concat (map (\<lambda>y. f (x, y)) ys)) xs) = concat (map f (List.product xs ys))"
  by (induction xs) (simp_all add: map_concat comp_def)

lemma placeAtoms_emit:
  "placeAtoms cx cy cz a st = emitAtoms (latticeAtoms cx cy cz a) st"
proof -
  have "placeAtoms cx cy cz a st =
      emitAtoms (concat (map (\<lambda>x. concat (map (\<lambda>y. concat (map (\<lambda>z.
        cellAtoms cx cy cz a (x, y, z)) [0..cz - 1])) [0..cy - 1])) [0..cx - 1])) st"
    by (simp add: placeAtoms_def placeUnitCell_emit fold_emitAtoms)
  also have "\<dots> = emitAtoms (concat (map (\<lambda>x. concat (map (\<lambda>p.
        cellAtoms cx cy cz a (x, p)) (List.product [0..cy - 1] [0..cz - 1]))) [0..cx - 1])) st"
    by (simp only: concat_product [where f = "\<lambda>p. cellAtoms cx cy cz a (x, p)" for x])
  also have "\<dots> = emitAtoms (latticeAtoms cx cy cz a) st"
    by (simp only: concat_product [where f = "cellAtoms cx cy cz a"] latticeAtoms_def gridCells_def)
  finally show ?thesis .
qed

lemma createBond_snoc: "createBond atom1 atom2 r g = g @ [bondMeshOf atom1 atom2 r]"
  by (simp add: createBond_def bondMeshOf_def Let_def)

lemma fold_if_snoc:
  "fold (\<lambda>x acc. if P x then acc @ [f x] else acc) xs acc = acc @ map f (filter P xs)"
  by (induction xs arbitrary: acc) simp_all

lemma createBonds_eq:
  "createBonds atoms r u g =
     g @ map (\<lambda>(i, j). bondMeshOf (atoms ! i) (atoms ! j) r)
           (filter (\<lambda>(i, j). distanceTo (atoms ! i) (atoms ! j) < maxBondDistance)
              (scanPairs (length atoms)))"
proof -
  have inner: "\<And>i g. fold (\<lambda>j g. let atom1 = atoms ! i; atom2 = atoms ! j;
                    distance = distanceTo atom1 atom2
                in if distance < maxBondDistance then createBond atom1 atom2 r g else g)
             [i + 1..<length atoms] g
        = g @ map (\<lambda>(i, j). bondMeshOf (atoms ! i) (atoms ! j) r)
              (filter (\<lambda>(i, j). distanceTo (atoms ! i) (atoms ! j) < maxBondDistance)
                 (map (Pair i) [i + 1..<length atoms]))"
    by (simp add: Let_def createBond_snoc fold_if_snoc filter_map comp_def cong del: if_weak_cong)
  show ?thesis
    unfolding createBonds_def inner scanPairs_def
    by (simp add: fold_append_concat filter_concat map_concat comp_def)
qed

lemma distinct_tagged_concat:
  "distinct xs \<Longrightarrow> (\<And>i. distinct (f i)) \<Longrightarrow>
     distinct (concat (map (\<lambda>i. map (Pair i) (f i)) xs))"
  by (induction xs) (auto simp: distinct_map inj_on_def)

lemma distinct_scanPairs: "distinct (scanPairs n)"
  unfolding scanPairs_def by (rule distinct_tagged_concat) simp_all

lemma set_scanPairs: "set (scanPairs n) = {(i, j). i < j \<and> j < n}"
  by (fastforce simp: scanPairs_def image_iff)

lemma storedPositions_diamond:
  "storedPositions (createDiamondStructure cx cy cz a) = latticeAtoms cx cy cz a"
  by (simp add: createDiamondStructure_def Let_def placeAtoms_emit emitAtoms_def)

lemma groupMeshes_diamond:
  "groupMeshes (createDiamondStructure cx cy cz a) =
     createBonds (latticeAtoms cx cy cz a) 0.15 a (map AtomMesh (latticeAtoms cx cy cz a))"
  by (simp add: createDiamondStructure_def Let_def placeAtoms_emit emitAtoms_def)

lemma atomMeshPositions_append:
  "atomMeshPositions (xs @ ys) = atomMeshPositions xs @ atomMeshPositions ys"
  by (simp add: atomMeshPositions_def)

lemma atomMeshPositions_atoms: "atomMeshPositions (map AtomMesh ps) = ps"
  by (induction ps) (simp_all add: atomMeshPositions_def)

lemma atomMeshPositions_bonds:
  "atomMeshPositions (map (\<lambda>(i, j). bondMeshOf (f i j) (g i j) r) ps) = []"
  by (induction ps) (auto simp: atomMeshPositions_def bondMeshOf_def)

lemma bondMeshes_append: "bondMeshes (xs @ ys) = bondMeshes xs @ bondMeshes ys"
  by (simp add: bondMeshes_def)

lemma bondMeshes_atoms: "bondMeshes (map AtomMesh ps) = []"
  by (induction ps) (simp_all add: bondMeshes_def)

lemma bondMeshes_bonds:
  "bondMeshes (map (\<lambda>(i, j). bondMeshOf (f i j) (g i j) r) ps)
     = map (\<lambda>(i, j). bondMeshOf (f i j) (g i j) r) ps"
  by (induction ps) (auto simp: bondMeshes_def bondMeshOf_def)

lemma length_cellAtoms: "length (cellAtoms cx cy cz a cell) = 8"
  by (simp add: cellAtoms_def fccOffsets_def)

lemma length_latticeAtoms:
  "length (latticeAtoms cx cy cz a) = 8 * (nat cx * nat cy * nat cz)"
  by (simp add: latticeAtoms_def length_concat comp_def length_cellAtoms sum_list_triv
        gridCells_def)

text \<open>
  Claim C4. The stored atom positions, and the atoms shown, are the lattice of
  the specification: for every grid cell in scan order and each of the four
  offsets, the primary atom at \<open>base + offset * latticeConstant\<close> followed by the
  second atom at \<open>primary + (0.25, 0.25, 0.25) * latticeConstant\<close>. A cell has
  eight atoms, the lattice \<open>8 * cellsX * cellsY * cellsZ\<close>, and the lattice of
  \<open>2 \<times> 2 \<times> 2\<close> cells with constant \<open>3.57\<close> has \<open>64\<close>.
\<close>

theorem diamond_atoms:
  "storedPositions (createDiamondStructure cellsX cellsY cellsZ a)
     = latticeAtoms cellsX cellsY cellsZ a \<and>
   atomMeshPositions (groupMeshes (createDiamondStructure cellsX cellsY cellsZ a))
     = latticeAtoms cellsX cellsY cellsZ a \<and>
   length (cellAtoms cellsX cellsY cellsZ a cell) = 8 \<and>
   length (storedPositions (createDiamondStructure cellsX cellsY cellsZ a))
     = 8 * (nat cellsX * nat cellsY * nat cellsZ) \<and>
   length (storedPositions (createDiamondStructure 2 2 2 3.57)) = 64"
proof (intro conjI)
  show "storedPositions (createDiamondStructure cellsX cellsY cellsZ a)
     = latticeAtoms cellsX cellsY cellsZ a"
    by (rule storedPositions_diamond)
  show "atomMeshPositions (groupMeshes (createDiamondStructure cellsX cellsY cellsZ a))
     = latticeAtoms cellsX cellsY cellsZ a"
    unfolding groupMeshes_diamond createBonds_eq atomMeshPositions_append
      atomMeshPositions_atoms atomMeshPositions_bonds
    by simp
  show "length (cellAtoms cellsX cellsY cellsZ a cell) = 8"
    by (rule length_cellAtoms)
  show "length (storedPositions (createDiamondStructure cellsX cellsY cellsZ a))
     = 8 * (nat cellsX * nat cellsY * nat cellsZ)"
    unfolding storedPositions_diamond by (rule length_latticeAtoms)
  show "length (storedPositions (createDiamondStructure 2 2 2 3.57)) = 64"
    unfolding storedPositions_diamond length_latticeAtoms by simp
qed

text \<open>
  Claim C3. \<open>createBonds\<close> adds one bond for each index pair \<open>i < j\<close> whose atoms
  are at a distance strictly below \<open>1.8\<close>, and no other: the pairs scanned are
  all pairs \<open>i < j\<close> below the number of atoms, each once. The result does not
  depend on the unit cell size passed in, and the builder's group is the atoms
  followed by these bonds.
\<close>

theorem bonds_are_the_close_pairs:
  "let pairs = filter (\<lambda>(i, j). distanceTo (atoms ! i) (atoms ! j) < 1.8)
                 (scanPairs (length atoms))
   in createBonds atoms r unitCellSize g
        = g @ map (\<lambda>(i, j). bondMeshOf (atoms ! i) (atoms ! j) r) pairs \<and>
      distinct (scanPairs (length atoms)) \<and>
      set (scanPairs (length atoms)) = {(i, j). i < j \<and> j < length atoms} \<and>
      distinct pairs \<and>
      set pairs = {(i, j). i < j \<and> j < length atoms \<and>
                     distanceTo (atoms ! i) (atoms ! j) < 1.8} \<and>
      createBonds atoms r unitCellSize' g = createBonds atoms r unitCellSize g \<and>
      groupMeshes (createDiamondStructure cellsX cellsY cellsZ a)
        = createBonds (storedPositions (createDiamondStructure cellsX cellsY cellsZ a)) 0.15 a
            (map AtomMesh (storedPositions (createDiamondStructure cellsX cellsY cellsZ a)))"
  unfolding Let_def storedPositions_diamond
  by (auto simp: createBonds_eq maxBondDistance_def distinct_scanPairs set_scanPairs
        groupMeshes_diamond)

lemma cellAtoms_units:
  "cellAtoms cx cy cz a cell = map (fromUnits a) (cellUnits cx cy cz cell)"
  by (cases cell)
     (simp add: cellAtoms_def cellUnits_def fccOffsets_def unitOffsets_def primaryAtom_def
        secondAtom_def cellBase_def add_def multiplyScalar_def fromUnits_def algebra_simps)

lemma latticeAtoms_units:
  "latticeAtoms cx cy cz a = map (fromUnits a) (latticeUnits cx cy cz)"
proof -
  have "cellAtoms cx cy cz a = (\<lambda>cell. map (fromUnits a) (cellUnits cx cy cz cell))"
    by (rule ext) (rule cellAtoms_units)
  then show ?thesis
    by (simp add: latticeAtoms_def latticeUnits_def map_concat comp_def)
qed

lemma distanceToSquared_units:
  "distanceToSquared (fromUnits a k) (fromUnits a l)
     = (a / 4)\<^sup>2 * of_int (unitDistanceSquared k l)"
  by (cases k, cases l)
     (simp add: distanceToSquared_def fromUnits_def unitDistanceSquared_def power2_eq_square
        algebra_simps)

lemma unitDistanceSquared_nonneg: "0 \<le> unitDistanceSquared k l"
  by (cases k, cases l) (simp add: unitDistanceSquared_def)

lemma distanceTo_units:
  "0 \<le> a \<Longrightarrow> distanceTo (fromUnits a k) (fromUnits a l)
     = a / 4 * sqrt (of_int (unitDistanceSquared k l))"
  by (simp add: distanceTo_def distanceToSquared_units real_sqrt_mult)

lemma close_iff_units:
  "distanceTo (fromUnits 3.57 k) (fromUnits 3.57 l) < 1.8 \<longleftrightarrow> unitDistanceSquared k l < 5"
proof -
  let ?n = "unitDistanceSquared k l"
  have "distanceTo (fromUnits 3.57 k) (fromUnits 3.57 l) < 1.8
      \<longleftrightarrow> sqrt ((3.57 / 4)\<^sup>2 * of_int ?n) < sqrt (1.8\<^sup>2)"
    by (simp add: distanceTo_def distanceToSquared_units)
  also have "\<dots> \<longleftrightarrow> (3.57 / 4)\<^sup>2 * real_of_int ?n < 1.8\<^sup>2"
    by (rule real_sqrt_less_iff)
  also have "\<dots> \<longleftrightarrow> ?n < 5"
  proof
    assume h: "(3.57 / 4)\<^sup>2 * real_of_int ?n < 1.8\<^sup>2"
    show "?n < 5"
    proof (rule ccontr)
      assume "\<not> ?n < 5"
      then have "5 \<le> real_of_int ?n" by simp
      then have "(3.57 / 4)\<^sup>2 * 5 \<le> (3.57 / 4)\<^sup>2 * real_of_int ?n"
        by (simp add: power2_eq_square)
      with h show False by (simp add: power2_eq_square)
    qed
  next
    assume "?n < 5"
    then have "real_of_int ?n \<le> 4" by simp
    then have "(3.57 / 4)\<^sup>2 * real_of_int ?n \<le> (3.57 / 4)\<^sup>2 * 4"
      by (simp add: power2_eq_square)
    then show "(3.57 / 4)\<^sup>2 * real_of_int ?n < 1.8\<^sup>2"
      by (simp add: power2_eq_square)
  qed
  finally show ?thesis .
qed

lemma units222:
  "latticeUnits 2 2 2 =
   [(-4,-4,-4),(-3,-3,-3),(-4,-2,-2),(-3,-1,-1),(-2,-4,-2),(-1,-3,-1),(-2,-2,-4),(-1,-1,-3),
    (-4,-4,0),(-3,-3,1),(-4,-2,2),(-3,-1,3),(-2,-4,2),(-1,-3,3),(-2,-2,0),(-1,-1,1),
    (-4,0,-4),(-3,1,-3),(-4,2,-2),(-3,3,-1),(-2,0,-2),(-1,1,-1),(-2,2,-4),(-1,3,-3),
    (-4,0,0),(-3,1,1),(-4,2,2),(-3,3,3),(-2,0,2),(-1,1,3),(-2,2,0),(-1,3,1),
    (0,-4,-4),(1,-3,-3),(0,-2,-2),(1,-1,-1),(2,-4,-2),(3,-3,-1),(2,-2,-4),(3,-1,-3),
    (0,-4,0),(1,-3,1),(0,-2,2),(1,-1,3),(2,-4,2),(3,-3,3),(2,-2,0),(3,-1,1),
    (0,0,-4),(1,1,-3),(0,2,-2),(1,3,-1),(2,0,-2),(3,1,-1),(2,2,-4),(3,3,-3),
    (0,0,0),(1,1,1),(0,2,2),(1,3,3),(2,0,2),(3,1,3),(2,2,0),(3,3,1)]"
  by (simp add: latticeUnits_def gridCells_def cellUnits_def unitOffsets_def upto_rec1)

lemma distinct_K222: "distinct K222"
  unfolding K222_def by simp

lemma square_ge_1: "(t::int) \<noteq> 0 \<Longrightarrow> 1 \<le> t * t"
proof -
  assume "t \<noteq> 0"
  then have "0 < t * t" by (simp add: zero_less_mult_iff) arith
  then show ?thesis by simp
qed

lemma even_square_ge_4: "even (t::int) \<Longrightarrow> t \<noteq> 0 \<Longrightarrow> 4 \<le> t * t"
proof -
  assume "even t" "t \<noteq> 0"
  then obtain m where m: "t = 2 * m" "m \<noteq> 0" by (auto elim: evenE)
  from square_ge_1 [OF m(2)] show ?thesis unfolding m(1) by simp
qed

lemma odd_square: "odd (t::int) \<Longrightarrow> t * t = 1 \<or> 9 \<le> t * t"
proof -
  assume o: "odd t"
  consider "t = 1" | "t = -1" | "3 \<le> t" | "t \<le> -3"
    using o by (cases "t = 0"; cases "t = 2"; cases "t = -2") (auto, arith)
  then show ?thesis
  proof cases
    case 3
    then have "3 * 3 \<le> t * t" by (intro mult_mono) simp_all
    then show ?thesis by simp
  next
    case 4
    then have "3 * 3 \<le> (- t) * (- t)" by (intro mult_mono) simp_all
    then show ?thesis by simp
  qed simp_all
qed

lemma mult4_square_ge_16: "(t::int) mod 4 = 0 \<Longrightarrow> t \<noteq> 0 \<Longrightarrow> 16 \<le> t * t"
proof -
  assume "t mod 4 = 0" "t \<noteq> 0"
  then obtain m where m: "t = 4 * m" "m \<noteq> 0" by (auto elim!: dvdE simp: mod_eq_0_iff_dvd)
  from square_ge_1 [OF m(2)] show ?thesis unfolding m(1) by simp
qed

lemma same_kind_gap:
  fixes a b c :: int
  assumes "even a" "even b" "even c" and s: "(a + b + c) mod 4 = 0"
      and nz: "a \<noteq> 0 \<or> b \<noteq> 0 \<or> c \<noteq> 0"
  shows "8 \<le> a * a + b * b + c * c"
proof -
  have A: "a = 0 \<or> 4 \<le> a * a" and B: "b = 0 \<or> 4 \<le> b * b" and C: "c = 0 \<or> 4 \<le> c * c"
    using assms(1-3) even_square_ge_4 by blast+
  have pos: "0 \<le> a * a" "0 \<le> b * b" "0 \<le> c * c" by simp_all
  show ?thesis
  proof (cases "a = 0")
    case a0: True
    show ?thesis
    proof (cases "b = 0")
      case b0: True
      with a0 nz s have "c mod 4 = 0" "c \<noteq> 0" by simp_all
      from mult4_square_ge_16 [OF this] a0 b0 show ?thesis by simp
    next
      case b1: False
      show ?thesis
      proof (cases "c = 0")
        case True
        with a0 s b1 have "b mod 4 = 0" "b \<noteq> 0" by simp_all
        from mult4_square_ge_16 [OF this] a0 True show ?thesis by simp
      next
        case False
        with b1 B C pos show ?thesis by arith
      qed
    qed
  next
    case a1: False
    show ?thesis
    proof (cases "b = 0")
      case b0: True
      show ?thesis
      proof (cases "c = 0")
        case True
        with b0 s a1 have "a mod 4 = 0" "a \<noteq> 0" by simp_all
        from mult4_square_ge_16 [OF this] b0 True show ?thesis by simp
      next
        case False
        with a1 A C pos show ?thesis by arith
      qed
    next
      case False
      with a1 A B pos show ?thesis by arith
    qed
  qed
qed

lemma cross_kind_gap:
  fixes a b c :: int
  assumes "odd a" "odd b" "odd c" and "a * a + b * b + c * c < 5"
  shows "a * a + b * b + c * c = 3"
  using odd_square [OF assms(1)] odd_square [OF assms(2)] odd_square [OF assms(3)] assms(4)
  by arith

lemma uds_first_first:
  assumes "firstKind k" "firstKind l" "k \<noteq> l"
  shows "8 \<le> unitDistanceSquared k l"
proof -
  obtain k1 k2 k3 l1 l2 l3 where kl: "k = (k1, k2, k3)" "l = (l1, l2, l3)"
    by (cases k, cases l) auto
  from assms(1,2) have e: "even (k1 - l1)" "even (k2 - l2)" "even (k3 - l3)"
    and m: "(k1 + k2 + k3) mod 4 = 0" "(l1 + l2 + l3) mod 4 = 0"
    by (simp_all add: kl firstKind_def)
  from m have s: "((k1 - l1) + (k2 - l2) + (k3 - l3)) mod 4 = 0" by presburger
  from assms(3) have nz: "k1 - l1 \<noteq> 0 \<or> k2 - l2 \<noteq> 0 \<or> k3 - l3 \<noteq> 0"
    by (auto simp: kl)
  from same_kind_gap [OF e s nz] show ?thesis
    by (simp add: kl unitDistanceSquared_def)
qed

lemma uds_second_second:
  assumes "secondKind k" "secondKind l" "k \<noteq> l"
  shows "8 \<le> unitDistanceSquared k l"
proof -
  obtain k1 k2 k3 l1 l2 l3 where kl: "k = (k1, k2, k3)" "l = (l1, l2, l3)"
    by (cases k, cases l) auto
  have f: "firstKind (k1 - 1, k2 - 1, k3 - 1)" "firstKind (l1 - 1, l2 - 1, l3 - 1)"
    using assms(1,2) by (simp_all add: kl secondKind_def)
  have ne: "(k1 - 1, k2 - 1, k3 - 1) \<noteq> (l1 - 1, l2 - 1, l3 - 1)"
    using assms(3) by (simp add: kl)
  from uds_first_first [OF f ne] show ?thesis
    by (simp add: kl unitDistanceSquared_def)
qed

lemma uds_first_second:
  assumes "firstKind k" "secondKind l" "unitDistanceSquared k l < 5"
  shows "unitDistanceSquared k l = 3"
proof -
  obtain k1 k2 k3 l1 l2 l3 where kl: "k = (k1, k2, k3)" "l = (l1, l2, l3)"
    by (cases k, cases l) auto
  from assms(1,2) have o: "odd (k1 - l1)" "odd (k2 - l2)" "odd (k3 - l3)"
    by (simp_all add: kl firstKind_def secondKind_def)
  from assms(3) have "(k1 - l1) * (k1 - l1) + (k2 - l2) * (k2 - l2) + (k3 - l3) * (k3 - l3) < 5"
    by (simp add: kl unitDistanceSquared_def)
  from cross_kind_gap [OF o this] show ?thesis
    by (simp add: kl unitDistanceSquared_def)
qed

lemma uds_commute: "unitDistanceSquared k l = unitDistanceSquared l k"
  by (cases k, cases l) (simp add: unitDistanceSquared_def algebra_simps)

lemma kinds_exclusive: "firstKind k \<Longrightarrow> secondKind k \<Longrightarrow> False"
  by (cases k) (auto simp: firstKind_def secondKind_def)

lemma concat_map_concat_map:
  "concat (map g (concat (map h xs))) = concat (map (\<lambda>x. concat (map g (h x))) xs)"
  by (induction xs) simp_all

lemma latticeAtoms_interleaved:
  "latticeAtoms cx cy cz a = concat (map (\<lambda>p. [p, secondAtom p a]) (firstSublattice cx cy cz a))"
proof -
  have "cellAtoms cx cy cz a = (\<lambda>cell. concat (map (\<lambda>p. [p, secondAtom p a])
          (map (primaryAtom (cellBase cx cy cz a cell) a) fccOffsets)))"
    by (rule ext) (simp add: cellAtoms_def comp_def)
  then show ?thesis
    by (simp add: latticeAtoms_def firstSublattice_def concat_map_concat_map)
qed

lemma K222_eq: "latticeUnits 2 2 2 = K222"
  unfolding K222_def by (rule units222)

lemma kinds222:
  "list_all (\<lambda>i. if even i then firstKind (K222 ! i) else secondKind (K222 ! i)) [0..<64]"
  unfolding K222_def by (simp add: upt_rec firstKind_def secondKind_def)

lemma length_K222: "length K222 = 64"
  by (simp add: K222_def)

lemma kind_at:
  assumes "i < 64"
  shows "even i \<Longrightarrow> firstKind (K222 ! i)" and "odd i \<Longrightarrow> secondKind (K222 ! i)"
proof -
  from assms have "i \<in> set [0..<64]" by simp
  with kinds222 have "if even i then firstKind (K222 ! i) else secondKind (K222 ! i)"
    unfolding list_all_iff by blast
  then show "even i \<Longrightarrow> firstKind (K222 ! i)" and "odd i \<Longrightarrow> secondKind (K222 ! i)"
    by (simp_all split: if_splits)
qed

lemma K222_nth_neq: "i < j \<Longrightarrow> j < 64 \<Longrightarrow> K222 ! i \<noteq> K222 ! j"
  using distinct_K222 length_K222 by (simp add: nth_eq_iff_index_eq)

lemma same_parity_gap:
  assumes "i < j" "j < 64" "even i = even j"
  shows "8 \<le> unitDistanceSquared (K222 ! i) (K222 ! j)"
proof (cases "even i")
  case True
  with assms have "firstKind (K222 ! i)" "firstKind (K222 ! j)"
    by (auto intro: kind_at)
  then show ?thesis using K222_nth_neq [OF assms(1,2)] by (rule uds_first_first)
next
  case False
  with assms have "secondKind (K222 ! i)" "secondKind (K222 ! j)"
    by (auto intro: kind_at)
  then show ?thesis using K222_nth_neq [OF assms(1,2)] by (rule uds_second_second)
qed

lemma close_pair_kinds:
  assumes "i < j" "j < 64" "unitDistanceSquared (K222 ! i) (K222 ! j) < 5"
  shows "even i \<noteq> even j \<and> unitDistanceSquared (K222 ! i) (K222 ! j) = 3"
proof -
  have ne: "even i \<noteq> even j" using same_parity_gap [OF assms(1,2)] assms(3) by fastforce
  show ?thesis
  proof (cases "even i")
    case True
    with ne assms have "firstKind (K222 ! i)" "secondKind (K222 ! j)"
      by (auto intro: kind_at)
    from uds_first_second [OF this assms(3)] ne show ?thesis by simp
  next
    case False
    with ne assms have "firstKind (K222 ! j)" "secondKind (K222 ! i)"
      by (auto intro: kind_at)
    from uds_first_second [OF this] assms(3) ne show ?thesis by (simp add: uds_commute)
  qed
qed

lemma atoms222: "storedPositions (createDiamondStructure 2 2 2 3.57) = map (fromUnits 3.57) K222"
  by (simp only: storedPositions_diamond latticeAtoms_units K222_eq)

lemma half_sqrt8: "sqrt 8 / 4 = 1 / sqrt 2"
proof -
  have "sqrt 2 * sqrt 2 = 2" by simp
  then show ?thesis unfolding sqrt8 by (simp add: field_simps)
qed

lemma sqrt2_less: "sqrt 2 < 3 / 2"
proof -
  have "sqrt 2 < sqrt ((3 / 2)\<^sup>2)"
    unfolding real_sqrt_less_iff by (simp add: power2_eq_square)
  then show ?thesis by simp
qed

lemma threshold_below_gap: "1.8 < 3.57 / sqrt 2"
proof -
  have "1.8 * sqrt 2 < 1.8 * (3 / 2)" using sqrt2_less by simp
  also have "\<dots> < 3.57" by simp
  finally show ?thesis by (simp add: field_simps)
qed

text \<open>
  Claim C10. In the lattice of \<open>2 \<times> 2 \<times> 2\<close> cells with constant \<open>3.57\<close> the atoms
  are stored in pairs, a primary atom (first sublattice, even index) followed
  by its second atom (second sublattice, odd index). Every bond joins an even
  index to an odd one and has length \<open>sqrt 3 / 4 * 3.57\<close>; two atoms of the same
  sublattice are at least \<open>3.57 / sqrt 2\<close> apart, a distance that is attained and
  exceeds the threshold \<open>1.8\<close>.
\<close>

theorem diamond_bonds_join_the_two_sublattices:
  "let atoms = storedPositions (createDiamondStructure 2 2 2 3.57);
       pairs = filter (\<lambda>(i, j). distanceTo (atoms ! i) (atoms ! j) < 1.8)
                 (scanPairs (length atoms));
       samePairs = filter (\<lambda>(i, j). even i = even j) (scanPairs (length atoms))
   in atoms = concat (map (\<lambda>p. [p, secondAtom p 3.57]) (firstSublattice 2 2 2 3.57)) \<and>
      bondMeshes (groupMeshes (createDiamondStructure 2 2 2 3.57))
        = map (\<lambda>(i, j). bondMeshOf (atoms ! i) (atoms ! j) 0.15) pairs \<and>
      (0, 1) \<in> set pairs \<and>
      list_all (\<lambda>(i, j). even i \<noteq> even j \<and>
                  distanceTo (atoms ! i) (atoms ! j) = sqrt 3 / 4 * 3.57) pairs \<and>
      list_all (\<lambda>(i, j). 3.57 / sqrt 2 \<le> distanceTo (atoms ! i) (atoms ! j)) samePairs \<and>
      (0, 2) \<in> set samePairs \<and>
      distanceTo (atoms ! 0) (atoms ! 2) = 3.57 / sqrt 2 \<and>
      1.8 < 3.57 / sqrt 2"
proof -
  let ?atoms = "map (fromUnits 3.57) K222"
  let ?pairs = "filter (\<lambda>(i, j). distanceTo (?atoms ! i) (?atoms ! j) < 1.8) (scanPairs 64)"
  let ?same = "filter (\<lambda>(i, j). even i = even j) (scanPairs 64)"
  have nth: "\<And>i. i < 64 \<Longrightarrow> ?atoms ! i = fromUnits 3.57 (K222 ! i)"
    by (simp add: length_K222)
  have dist: "\<And>i j. i < j \<Longrightarrow> j < 64 \<Longrightarrow>
      distanceTo (?atoms ! i) (?atoms ! j)
        = 3.57 / 4 * sqrt (of_int (unitDistanceSquared (K222 ! i) (K222 ! j)))"
    by (simp add: length_K222 distanceTo_units)
  have close: "\<And>i j. i < j \<Longrightarrow> j < 64 \<Longrightarrow>
      distanceTo (?atoms ! i) (?atoms ! j) < 1.8
        \<longleftrightarrow> unitDistanceSquared (K222 ! i) (K222 ! j) < 5"
  proof -
    fix i j :: nat assume ij: "i < j" "j < 64"
    then have i: "i < 64" by simp
    show "distanceTo (?atoms ! i) (?atoms ! j) < 1.8
        \<longleftrightarrow> unitDistanceSquared (K222 ! i) (K222 ! j) < 5"
      unfolding nth [OF i] nth [OF ij(2)] by (rule close_iff_units)
  qed
  have c1: "storedPositions (createDiamondStructure 2 2 2 3.57)
      = concat (map (\<lambda>p. [p, secondAtom p 3.57]) (firstSublattice 2 2 2 3.57))"
    by (simp only: storedPositions_diamond latticeAtoms_interleaved)
  have c2: "bondMeshes (groupMeshes (createDiamondStructure 2 2 2 3.57))
      = map (\<lambda>(i, j). bondMeshOf (?atoms ! i) (?atoms ! j) 0.15) ?pairs"
    unfolding groupMeshes_diamond createBonds_eq bondMeshes_append bondMeshes_atoms
      bondMeshes_bonds latticeAtoms_units K222_eq maxBondDistance_def
    by (simp add: length_K222)
  have u01: "unitDistanceSquared (K222 ! 0) (K222 ! 1) = 3"
    and u02: "unitDistanceSquared (K222 ! 0) (K222 ! 2) = 8"
    by (simp_all add: K222_def unitDistanceSquared_def)
  have c3: "(0, 1) \<in> set ?pairs"
    using close [of 0 1] u01 by (simp add: set_scanPairs)
  have c4: "list_all (\<lambda>(i, j). even i \<noteq> even j \<and>
                  distanceTo (?atoms ! i) (?atoms ! j) = sqrt 3 / 4 * 3.57) ?pairs"
    unfolding list_all_iff
  proof (clarify)
    fix i j assume "(i, j) \<in> set ?pairs"
    then have ij: "i < j" "j < 64" and d: "distanceTo (?atoms ! i) (?atoms ! j) < 1.8"
      by (simp_all add: set_scanPairs)
    from d have "unitDistanceSquared (K222 ! i) (K222 ! j) < 5"
      using close [OF ij] by simp
    from close_pair_kinds [OF ij this]
    have k: "even i \<noteq> even j" "unitDistanceSquared (K222 ! i) (K222 ! j) = 3"
      by blast+
    show "even i \<noteq> even j \<and> distanceTo (?atoms ! i) (?atoms ! j) = sqrt 3 / 4 * 3.57"
      unfolding dist [OF ij] k(2) using k(1) by simp
  qed
  have c5: "list_all (\<lambda>(i, j). 3.57 / sqrt 2 \<le> distanceTo (?atoms ! i) (?atoms ! j)) ?same"
    unfolding list_all_iff
  proof (clarify)
    fix i j assume "(i, j) \<in> set ?same"
    then have ij: "i < j" "j < 64" and p: "even i = even j"
      by (simp_all add: set_scanPairs)
    from same_parity_gap [OF ij p]
    have "sqrt 8 \<le> sqrt (of_int (unitDistanceSquared (K222 ! i) (K222 ! j)))"
      unfolding real_sqrt_le_iff by simp
    then have "3.57 * (sqrt 8 / 4)
        \<le> 3.57 / 4 * sqrt (of_int (unitDistanceSquared (K222 ! i) (K222 ! j)))"
      by simp
    then show "3.57 / sqrt 2 \<le> distanceTo (?atoms ! i) (?atoms ! j)"
      unfolding half_sqrt8 dist [OF ij] by simp
  qed
  have c6: "(0, 2) \<in> set ?same" by (simp add: set_scanPairs)
  have "distanceTo (?atoms ! 0) (?atoms ! 2) = 3.57 * (sqrt 8 / 4)"
    using dist [of 0 2] u02 by simp
  then have c7: "distanceTo (?atoms ! 0) (?atoms ! 2) = 3.57 / sqrt 2"
    unfolding half_sqrt8 by simp
  show ?thesis
    unfolding Let_def
    apply (intro conjI)
           apply (rule c1)
          apply (simp only: atoms222 length_map length_K222 c2)
         apply (simp only: atoms222 length_map length_K222 c3)
        apply (simp only: atoms222 length_map length_K222 c4)
       apply (simp only: atoms222 length_map length_K222 c5)
      apply (simp only: atoms222 length_map length_K222 c6)
     apply (simp only: atoms222 c7)
    apply (rule threshold_below_gap)
    done
qed

section \<open>Proofs: arguments the specification calls invalid\<close>

lemma prism_empty:
  "w \<le> 0 \<or> h \<le> 0 \<or> d \<le> 0 \<Longrightarrow> createRectangularPrismWithCubes w h d s sp = []"
  by (auto simp: prism_as_concat)

lemma latticeAtoms_empty:
  "cx \<le> 0 \<or> cy \<le> 0 \<or> cz \<le> 0 \<Longrightarrow> latticeAtoms cx cy cz a = []"
  by (auto simp: latticeAtoms_def gridCells_def)

lemma diamond_empty:
  assumes "cx \<le> 0 \<or> cy \<le> 0 \<or> cz \<le> 0"
  shows "createDiamondStructure cx cy cz a = \<lparr> groupMeshes = [], storedPositions = [] \<rparr>"
proof -
  have "storedPositions (createDiamondStructure cx cy cz a) = []"
    unfolding storedPositions_diamond using assms by (rule latticeAtoms_empty)
  moreover have "groupMeshes (createDiamondStructure cx cy cz a) = []"
    unfolding groupMeshes_diamond latticeAtoms_empty [OF assms] createBonds_eq
    by (simp add: scanPairs_def)
  ultimately show ?thesis by simp
qed

lemma replicate_5_4:
  "replicate 5 (replicate 4 x) =
     [[x, x, x, x], [x, x, x, x], [x, x, x, x], [x, x, x, x], [x, x, x, x]]"
  by (simp add: numeral_eq_Suc)

lemma collapsed_cluster:
  "map vertices_of (sceneTetrahedrons (createMultipleTetrahedrons 0))
     = replicate 5 (replicate 4 (Vector3 0 0 0))"
  unfolding replicate_5_4
  by (simp add: sceneTetrahedrons_eq additionalTetrahedron_def Let_def centralVertices_eq
        centralVertices_def [symmetric] newVerticesLoop_eq newVertexAt_def normalize_v_def divideScalar_def multiplyScalar_def
        add_def subVectors_def length_v_def lengthSq_def)

text \<open>
  Claim C9 says that a builder given a non-positive dimension, scale, spacing or
  lattice constant signals an invalid argument before returning anything. It
  does not: a prism of width \<open>0\<close> or of depth \<open>-3\<close> is returned as an empty grid,
  a lattice of \<open>0\<close> cells as an empty group, and the cluster of scale \<open>0\<close> as
  five tetrahedra with all twenty vertices at the origin.
\<close>

theorem builders_accept_nonpositive_arguments:
  "PrismCellClassifier_build 0 5 11 1 0.2 = Inr [] \<and>
   PrismCellClassifier_build 2 5 (- 3) 1 0.2 = Inr [] \<and>
   DiamondLatticeBuilder_build 0 2 2 3.57
     = Inr \<lparr> groupMeshes = [], storedPositions = [] \<rparr> \<and>
   TetrahedronClusterBuilder_build 0 = Inr (createMultipleTetrahedrons 0) \<and>
   map vertices_of (sceneTetrahedrons (createMultipleTetrahedrons 0))
     = replicate 5 (replicate 4 (Vector3 0 0 0))"
  by (simp add: PrismCellClassifier_build_def DiamondLatticeBuilder_build_def
        TetrahedronClusterBuilder_build_def prism_empty diamond_empty collapsed_cluster)

text \<open>
  Claim C9 as amended. No builder checks its arguments: for every input the
  outcome is a returned model, never the invalid argument. A non-positive
  dimension gives the empty grid, a non-positive cell count a lattice with no
  atom and no bond, and scale \<open>0\<close> five tetrahedra collapsed at the origin.
\<close>

theorem builders_never_signal:
  "TetrahedronClusterBuilder_build scale \<noteq> Inl InvalidArgument \<and>
   PrismCellClassifier_build w h d s sp \<noteq> Inl InvalidArgument \<and>
   DiamondLatticeBuilder_build cx cy cz a \<noteq> Inl InvalidArgument \<and>
   (w \<le> 0 \<or> h \<le> 0 \<or> d \<le> 0 \<longrightarrow> PrismCellClassifier_build w h d s sp = Inr []) \<and>
   (cx \<le> 0 \<or> cy \<le> 0 \<or> cz \<le> 0 \<longrightarrow>
      DiamondLatticeBuilder_build cx cy cz a
        = Inr \<lparr> groupMeshes = [], storedPositions = [] \<rparr>) \<and>
   (\<exists>scene. TetrahedronClusterBuilder_build 0 = Inr scene \<and>
      map vertices_of (sceneTetrahedrons scene) = replicate 5 (replicate 4 (Vector3 0 0 0)))"
  using prism_empty [of w h d s sp] diamond_empty [of cx cy cz a] collapsed_cluster
  by (simp add: PrismCellClassifier_build_def DiamondLatticeBuilder_build_def
        TetrahedronClusterBuilder_build_def)

theorem builders_never_signal_witness:
  "((0::int) \<le> 0 \<or> (5::int) \<le> 0 \<or> (11::int) \<le> 0) \<and>
   PrismCellClassifier_build 0 5 11 1 0.2 = Inr [] \<and>
   DiamondLatticeBuilder_build 2 0 2 3.57
     = Inr \<lparr> groupMeshes = [], storedPositions = [] \<rparr>"
  using builders_never_signal [of _ 0 5 11 1 "0.2" 2 0 2 "3.57"]
  by simp

end
